theory Spec2Isabelle
  imports Complex_Main "HOL-Library.Log_Nat"
begin

unbundle bit_operations_syntax

section \<open>JavaScript values read from a request body\<close>

text \<open>
  \<^verbatim>\<open>request.json()\<close> yields a JSON value. A string is its UTF-8 bytes (what
  \<^verbatim>\<open>TextEncoder\<close> gives the digest). A number is held as the text that
  \<^verbatim>\<open>Number.prototype.toString\<close> renders for it: the handlers only test a number
  for truthiness and interpolate it into a template literal, and the one falsy number
  that JSON can denote (0 and -0) renders as \<^verbatim>\<open>0\<close>. An object is its list of own
  properties. The JavaScript value \<^verbatim>\<open>undefined\<close> is \<open>None\<close>.
\<close>

datatype json =
    JNull
  | JBool bool
  | JNum string
  | JStr string
  | JArr "json list"
  | JObj "(string \<times> json) list"

text \<open>
  What a handler can throw: a \<^verbatim>\<open>TypeError\<close> of the language, the refusal of an
  \<^verbatim>\<open>INSERT\<close> by a \<^verbatim>\<open>PRIMARY KEY\<close> or \<^verbatim>\<open>UNIQUE\<close> constraint, and the
  refusal of a script by \<^verbatim>\<open>DB.exec\<close>.
\<close>

datatype error = TypeError | UniqueConstraintFailed | ExecError

text \<open>Truthiness, as tested by \<^verbatim>\<open>!x\<close>, \<^verbatim>\<open>x || y\<close> and \<^verbatim>\<open>if (x)\<close>.\<close>

fun truthy :: "json option \<Rightarrow> bool" where
  "truthy None = False"
| "truthy (Some JNull) = False"
| "truthy (Some (JBool b)) = b"
| "truthy (Some (JNum n)) = (n \<noteq> ''0'')"
| "truthy (Some (JStr s)) = (s \<noteq> [])"
| "truthy (Some (JArr xs)) = True"
| "truthy (Some (JObj kvs)) = True"

text \<open>\<^verbatim>\<open>typeof x === "object"\<close>: true of objects, arrays and \<^verbatim>\<open>null\<close>.\<close>

fun typeof_object :: "json option \<Rightarrow> bool" where
  "typeof_object (Some JNull) = True"
| "typeof_object (Some (JArr xs)) = True"
| "typeof_object (Some (JObj kvs)) = True"
| "typeof_object v = False"

text \<open>
  \<^verbatim>\<open>x?.k\<close> for the property names the handlers read. None of them is inherited from
  a prototype or is an array index, so only an object with that own property yields a
  value; everything else, \<^verbatim>\<open>null\<close> and \<^verbatim>\<open>undefined\<close> included, yields
  \<^verbatim>\<open>undefined\<close>.
\<close>

fun opt_get :: "json option \<Rightarrow> string \<Rightarrow> json option" where
  "opt_get (Some (JObj kvs)) k = map_of kvs k"
| "opt_get v k = None"

text \<open>\<^verbatim>\<open>x.k\<close> without the question mark throws on \<^verbatim>\<open>null\<close> and \<^verbatim>\<open>undefined\<close>.\<close>

fun get :: "json option \<Rightarrow> string \<Rightarrow> error + json option" where
  "get None k = Inl TypeError"
| "get (Some JNull) k = Inl TypeError"
| "get v k = Inr (opt_get v k)"

text \<open>\<^verbatim>\<open>x || lit\<close> with a literal right operand.\<close>

fun or_default :: "json option \<Rightarrow> json \<Rightarrow> json" where
  "or_default None lit = lit"
| "or_default (Some v) lit = (if truthy (Some v) then v else lit)"

text \<open>
  The string conversion of a template literal. An array joins its elements with commas,
  \<^verbatim>\<open>null\<close> elements as empty strings. An object without an own \<^verbatim>\<open>toString\<close>
  property gives \<^verbatim>\<open>[object Object]\<close>; with one (never callable in parsed JSON) the
  conversion finds no primitive and throws.
\<close>

fun ToString :: "json \<Rightarrow> error + string"
  and join_elements :: "json list \<Rightarrow> error + string"
  and element_string :: "json \<Rightarrow> error + string"
where
  "ToString JNull = Inr ''null''"
| "ToString (JBool b) = Inr (if b then ''true'' else ''false'')"
| "ToString (JNum n) = Inr n"
| "ToString (JStr s) = Inr s"
| "ToString (JArr xs) = join_elements xs"
| "ToString (JObj kvs) =
     (if ''toString'' \<in> set (map fst kvs) then Inl TypeError else Inr ''[object Object]'')"
| "join_elements [] = Inr []"
| "join_elements [x] = element_string x"
| "join_elements (x # y # ys) =
     (case element_string x of
        Inl e \<Rightarrow> Inl e
      | Inr s \<Rightarrow> (case join_elements (y # ys) of
                    Inl e \<Rightarrow> Inl e
                  | Inr t \<Rightarrow> Inr (s @ '','' @ t)))"
| "element_string JNull = Inr []"
| "element_string (JBool b) = ToString (JBool b)"
| "element_string (JNum n) = ToString (JNum n)"
| "element_string (JStr s) = ToString (JStr s)"
| "element_string (JArr xs) = ToString (JArr xs)"
| "element_string (JObj kvs) = ToString (JObj kvs)"

fun template_string :: "json option \<Rightarrow> error + string" where
  "template_string None = Inr ''undefined''"
| "template_string (Some v) = ToString v"

section \<open>Validators\<close>

text \<open>
  \<^verbatim>\<open>validatePayload\<close> of \<^verbatim>\<open>worker.js\<close>. After the guard \<open>p\<close> is neither
  \<^verbatim>\<open>null\<close> nor a primitive, so \<^verbatim>\<open>p.k\<close> cannot throw and reads as \<^verbatim>\<open>p?.k\<close>.
  The pushes are in source order.
\<close>

definition validatePayload :: "json \<Rightarrow> string list" where
  "validatePayload p =
     (if \<not> truthy (Some p) \<or> \<not> typeof_object (Some p) then [''Payload must be JSON object'']
      else
        (if \<not> truthy (opt_get (Some p) ''schema_version'') then [''Missing schema_version''] else [])
      @ (if \<not> truthy (opt_get (Some p) ''created_utc'') then [''Missing created_utc''] else [])
      @ (if \<not> truthy (opt_get (Some p) ''voter_id'') then [''Missing voter_id''] else [])
      @ (if \<not> truthy (opt_get (Some p) ''context'') \<or> \<not> typeof_object (opt_get (Some p) ''context'')
         then [''Missing context object''] else [])
      @ (if \<not> truthy (opt_get (opt_get (Some p) ''context'') ''region'')
         then [''Missing context.region''] else [])
      @ (if \<not> truthy (opt_get (opt_get (Some p) ''context'') ''country_or_territory'')
         then [''Missing context.country_or_territory''] else []))"

text \<open>\<^verbatim>\<open>validate\<close> of the second entry point (\<^verbatim>\<open>part_000\<close>).\<close>

definition validate :: "json \<Rightarrow> string list" where
  "validate p =
        (if \<not> truthy (opt_get (Some p) ''schema_version'') then [''Missing schema_version''] else [])
      @ (if \<not> truthy (opt_get (Some p) ''created_utc'') then [''Missing created_utc''] else [])
      @ (if \<not> truthy (opt_get (Some p) ''voter_id'') then [''Missing voter_id''] else [])
      @ (if \<not> truthy (opt_get (opt_get (Some p) ''context'') ''region'')
         then [''Missing context.region''] else [])
      @ (if \<not> truthy (opt_get (opt_get (Some p) ''context'') ''country_or_territory'')
         then [''Missing context.country_or_territory''] else [])"

section \<open>SHA-256 and its hexadecimal rendering\<close>

text \<open>
  \<^verbatim>\<open>crypto.subtle.digest("SHA-256", data)\<close> on 32-bit words held as integers, every
  addition reduced modulo \<open>2 ^ 32\<close>.
\<close>

definition add32 :: "int \<Rightarrow> int \<Rightarrow> int" where
  "add32 x y = (x + y) mod 2 ^ 32"

definition rotr :: "nat \<Rightarrow> int \<Rightarrow> int" where
  "rotr n x = drop_bit n x OR take_bit 32 (push_bit (32 - n) x)"

definition ch :: "int \<Rightarrow> int \<Rightarrow> int \<Rightarrow> int" where
  "ch x y z = (x AND y) XOR ((4294967295 - x) AND z)"

definition maj :: "int \<Rightarrow> int \<Rightarrow> int \<Rightarrow> int" where
  "maj x y z = (x AND y) XOR (x AND z) XOR (y AND z)"

definition big_sigma0 :: "int \<Rightarrow> int" where
  "big_sigma0 x = rotr 2 x XOR rotr 13 x XOR rotr 22 x"

definition big_sigma1 :: "int \<Rightarrow> int" where
  "big_sigma1 x = rotr 6 x XOR rotr 11 x XOR rotr 25 x"

definition small_sigma0 :: "int \<Rightarrow> int" where
  "small_sigma0 x = rotr 7 x XOR rotr 18 x XOR drop_bit 3 x"

definition small_sigma1 :: "int \<Rightarrow> int" where
  "small_sigma1 x = rotr 17 x XOR rotr 19 x XOR drop_bit 10 x"

definition round_constants :: "int list" where
  "round_constants = [
    1116352408, 1899447441, 3049323471, 3921009573, 961987163, 1508970993,
    2453635748, 2870763221, 3624381080, 310598401, 607225278, 1426881987,
    1925078388, 2162078206, 2614888103, 3248222580, 3835390401, 4022224774,
    264347078, 604807628, 770255983, 1249150122, 1555081692, 1996064986,
    2554220882, 2821834349, 2952996808, 3210313671, 3336571891, 3584528711,
    113926993, 338241895, 666307205, 773529912, 1294757372, 1396182291,
    1695183700, 1986661051, 2177026350, 2456956037, 2730485921, 2820302411,
    3259730800, 3345764771, 3516065817, 3600352804, 4094571909, 275423344,
    430227734, 506948616, 659060556, 883997877, 958139571, 1322822218,
    1537002063, 1747873779, 1955562222, 2024104815, 2227730452, 2361852424,
    2428436474, 2756734187, 3204031479, 3329325298]"

definition initial_hash :: "int list" where
  "initial_hash = [1779033703, 3144134277, 1013904242, 2773480762,
                   1359893119, 2600822924, 528734635, 1541459225]"

text \<open>The message schedule is a sliding window of sixteen words.\<close>

fun next_word :: "int list \<Rightarrow> int" where
  "next_word [w0, w1, w2, w3, w4, w5, w6, w7, w8, w9, w10, w11, w12, w13, w14, w15] =
     add32 (add32 (small_sigma1 w14) w9) (add32 (small_sigma0 w1) w0)"
| "next_word ws = 0"

fun temp1 :: "int list \<Rightarrow> int \<Rightarrow> int \<Rightarrow> int" where
  "temp1 [a, b, c, d, e, f, g, h] k w =
     add32 (add32 (add32 h (big_sigma1 e)) (add32 (ch e f g) k)) w"
| "temp1 st k w = 0"

fun temp2 :: "int list \<Rightarrow> int" where
  "temp2 (a # b # c # st) = add32 (big_sigma0 a) (maj a b c)"
| "temp2 st = 0"

fun rotate_registers :: "int list \<Rightarrow> int \<Rightarrow> int \<Rightarrow> int list" where
  "rotate_registers [a, b, c, d, e, f, g, h] t1 t2 =
     [add32 t1 t2, a, b, c, add32 d t1, e, f, g]"
| "rotate_registers st t1 t2 = st"

fun round_step :: "int list \<times> int list \<Rightarrow> int \<Rightarrow> int list \<times> int list" where
  "round_step (st, ws) k =
     (rotate_registers st (temp1 st k (hd ws)) (temp2 st), tl ws @ [next_word ws])"

definition compress :: "int list \<Rightarrow> int list \<Rightarrow> int list" where
  "compress hs block = map2 add32 hs (fst (foldl round_step (hs, block) round_constants))"

fun be_bytes :: "nat \<Rightarrow> int \<Rightarrow> int list" where
  "be_bytes 0 v = []"
| "be_bytes (Suc n) v = be_bytes n (v div 256) @ [v mod 256]"

definition pad :: "int list \<Rightarrow> int list" where
  "pad bs = bs @ [128] @ replicate ((119 - length bs mod 64) mod 64) 0
               @ be_bytes 8 (8 * int (length bs))"

fun be_words :: "int list \<Rightarrow> int list" where
  "be_words (a # b # c # d # bs) = (((a * 256 + b) * 256 + c) * 256 + d) # be_words bs"
| "be_words bs = []"

fun blocks :: "int list \<Rightarrow> int list list" where
  "blocks (w0 # w1 # w2 # w3 # w4 # w5 # w6 # w7 # w8 # w9 # w10 # w11 # w12 # w13 # w14 # w15 # ws) =
     [w0, w1, w2, w3, w4, w5, w6, w7, w8, w9, w10, w11, w12, w13, w14, w15] # blocks ws"
| "blocks ws = []"

definition digest :: "int list \<Rightarrow> int list" where
  "digest bs = foldl compress initial_hash (blocks (be_words (pad bs)))"

definition hex_digit :: "int \<Rightarrow> char" where
  "hex_digit n = ''0123456789abcdef'' ! nat (n mod 16)"

definition hex_byte :: "int \<Rightarrow> string" where
  "hex_byte b = [hex_digit (b div 16), hex_digit b]"

text \<open>
  \<^verbatim>\<open>sha256(str)\<close>: the digest of the UTF-8 bytes, each byte as two lowercase
  hexadecimal digits.
\<close>

definition sha256 :: "string \<Rightarrow> string" where
  "sha256 str = concat (map hex_byte (concat (map (be_bytes 4) (digest (map of_char str)))))"

section \<open>Fingerprint and receipt\<close>

definition windowId :: string where
  "windowId = ''2026-01-03_to_2026-02-02''"

text \<open>
  \<^verbatim>\<open>sha256(`${payload.voter_id}|${payload.schema_version}|${windowId}`)\<close>. Reading
  a property of \<^verbatim>\<open>null\<close> and converting an object that hides \<^verbatim>\<open>toString\<close>
  throw.
\<close>

definition dedupeKey :: "json \<Rightarrow> error + string" where
  "dedupeKey payload =
     (case get (Some payload) ''voter_id'' of
        Inl e \<Rightarrow> Inl e
      | Inr voter \<Rightarrow>
     (case template_string voter of
        Inl e \<Rightarrow> Inl e
      | Inr voter_text \<Rightarrow>
     (case get (Some payload) ''schema_version'' of
        Inl e \<Rightarrow> Inl e
      | Inr version \<Rightarrow>
     (case template_string version of
        Inl e \<Rightarrow> Inl e
      | Inr version_text \<Rightarrow>
          Inr (sha256 (voter_text @ ''|'' @ version_text @ ''|'' @ windowId))))))"

text \<open>\<^verbatim>\<open>"r_" + (await sha256(dedupeKey)).slice(0, 8)\<close>\<close>

definition receiptId :: "string \<Rightarrow> string" where
  "receiptId key = ''r_'' @ take 8 (sha256 key)"

section \<open>The database\<close>

text \<open>
  The three tables that the handlers read and write, rows in insertion order. A column holds the
  JavaScript value that was bound to it; the driver's conversion between JavaScript
  values and SQLite storage classes is outside the repository and is not modelled, and
  \<^verbatim>\<open>JSON.stringify(payload)\<close> is represented by the payload. A row of
  \<^verbatim>\<open>aggregates\<close> is \<open>(k, v)\<close>, a row of \<^verbatim>\<open>region_counts\<close> is
  \<open>(region, total, approve_yes)\<close>.
\<close>

record submission =
  receipt_id :: string
  dedupe_key :: string
  created_utc :: string
  region :: json
  payload_json :: json

record db =
  submissions :: "submission list"
  aggregates :: "(string \<times> nat) list"
  region_counts :: "(json \<times> nat \<times> nat) list"

definition empty_db :: db where
  "empty_db = \<lparr>submissions = [], aggregates = [], region_counts = []\<rparr>"

text \<open>
  \<^verbatim>\<open>ensureSchema\<close> of \<^verbatim>\<open>worker.js\<close> awaits \<^verbatim>\<open>DB.exec\<close> on one template
  literal, which spreads three \<^verbatim>\<open>CREATE TABLE IF NOT EXISTS\<close> statements over sixteen
  lines. \<^verbatim>\<open>DB\<close> is the D1 binding that \<^verbatim>\<open>fetch\<close> asks for (lines 28 to 34). Its
  \<^verbatim>\<open>exec\<close> trims the script, cuts it at the line ends and runs every line as a
  statement of its own, one after the other; at the first line that the database
  refuses it throws (\<^verbatim>\<open>Error in line 1: CREATE TABLE IF NOT EXISTS submissions (:
  incomplete input\<close> for this script). The script below is the literal, trimmed and cut.

  A line is a whole statement when its parentheses are closed and it ends with the
  semicolon; no line of the script is one. A state of type \<open>db\<close> is a database in
  which the three tables exist, so a whole \<^verbatim>\<open>CREATE TABLE IF NOT EXISTS\<close> statement
  would leave it as it is.
\<close>

definition schema_script :: "string list" where
  "schema_script =
     [''CREATE TABLE IF NOT EXISTS submissions ('',
      ''      receipt_id TEXT PRIMARY KEY,'',
      ''      dedupe_key TEXT UNIQUE,'',
      ''      created_utc TEXT,'',
      ''      region TEXT,'',
      ''      payload_json TEXT'',
      ''    );'',
      ''    CREATE TABLE IF NOT EXISTS aggregates ('',
      ''      k TEXT PRIMARY KEY,'',
      ''      v INTEGER NOT NULL'',
      ''    );'',
      ''    CREATE TABLE IF NOT EXISTS region_counts ('',
      ''      region TEXT PRIMARY KEY,'',
      ''      total INTEGER NOT NULL,'',
      ''      approve_yes INTEGER NOT NULL'',
      ''    );'']"

definition whole_statement :: "string \<Rightarrow> bool" where
  "whole_statement line =
     (line \<noteq> [] \<and> last line = CHR '';''
      \<and> length (filter (\<lambda>c. c = CHR ''('') line) = length (filter (\<lambda>c. c = CHR '')'') line))"

fun exec :: "string list \<Rightarrow> db \<Rightarrow> error + db" where
  "exec [] d = Inr d"
| "exec (line # rest) d = (if whole_statement line then exec rest d else Inl ExecError)"

definition ensureSchema :: "db \<Rightarrow> error + db" where
  "ensureSchema d = exec schema_script d"

text \<open>\<^verbatim>\<open>SELECT receipt_id FROM submissions WHERE dedupe_key = ? LIMIT 1\<close>\<close>

definition select_receipt_id :: "db \<Rightarrow> string \<Rightarrow> string option" where
  "select_receipt_id d key =
     map_option receipt_id (find (\<lambda>r. dedupe_key r = key) (submissions d))"

text \<open>
  \<^verbatim>\<open>INSERT INTO submissions ... VALUES (?,?,?,?,?)\<close>. \<^verbatim>\<open>receipt_id\<close> is the
  primary key and \<^verbatim>\<open>dedupe_key\<close> is \<^verbatim>\<open>UNIQUE\<close>: a row that repeats either is
  refused, the statement throws and the table is unchanged.
\<close>

definition insert_submission :: "db \<Rightarrow> submission \<Rightarrow> error + db" where
  "insert_submission d row =
     (if receipt_id row \<in> set (map receipt_id (submissions d))
         \<or> dedupe_key row \<in> set (map dedupe_key (submissions d))
      then Inl UniqueConstraintFailed
      else Inr (d\<lparr>submissions := submissions d @ [row]\<rparr>))"

text \<open>
  \<^verbatim>\<open>INSERT INTO aggregates (k, v) VALUES (?, 1) ON CONFLICT(k) DO UPDATE SET v = v + 1\<close>
\<close>

definition inc :: "db \<Rightarrow> string \<Rightarrow> db" where
  "inc d key =
     d\<lparr>aggregates :=
         (if key \<in> set (map fst (aggregates d))
          then map (\<lambda>(k, v). if k = key then (k, v + 1) else (k, v)) (aggregates d)
          else aggregates d @ [(key, 1)])\<rparr>"

text \<open>
  \<^verbatim>\<open>INSERT INTO region_counts (region, total, approve_yes) VALUES (?, 0, 0)
  ON CONFLICT(region) DO NOTHING\<close>
\<close>

definition insert_region_or_ignore :: "db \<Rightarrow> json \<Rightarrow> db" where
  "insert_region_or_ignore d r =
     (if r \<in> set (map fst (region_counts d)) then d
      else d\<lparr>region_counts := region_counts d @ [(r, 0, 0)]\<rparr>)"

text \<open>
  \<^verbatim>\<open>UPDATE region_counts SET total = total + 1, approve_yes = approve_yes + ?
  WHERE region = ?\<close>
\<close>

definition update_region :: "db \<Rightarrow> nat \<Rightarrow> json \<Rightarrow> db" where
  "update_region d n r =
     d\<lparr>region_counts :=
         map (\<lambda>(r', t, a). if r' = r then (r', t + 1, a + n) else (r', t, a)) (region_counts d)\<rparr>"

text \<open>
  The single statement of the second entry point:
  \<^verbatim>\<open>INSERT INTO region_counts (region, total, approve_yes) VALUES (?,1,?)
  ON CONFLICT(region) DO UPDATE SET total = total + 1, approve_yes = approve_yes + ?\<close>
\<close>

definition upsert_region :: "db \<Rightarrow> json \<Rightarrow> nat \<Rightarrow> db" where
  "upsert_region d r n =
     d\<lparr>region_counts :=
         (if r \<in> set (map fst (region_counts d))
          then map (\<lambda>(r', t, a). if r' = r then (r', t + 1, a + n) else (r', t, a)) (region_counts d)
          else region_counts d @ [(r, 1, n)])\<rparr>"

section \<open>Ledger update\<close>

definition approve_of :: "json \<Rightarrow> bool" where
  "approve_of p =
     truthy (opt_get (opt_get (Some p) ''ballot_track_a'') ''approve_interim_masculine_regent'')"

definition prefer_of :: "json \<Rightarrow> bool" where
  "prefer_of p =
     truthy (opt_get (opt_get (Some p) ''ballot_track_a'') ''prefer_open_contest_in_approx_90_days'')"

text \<open>\<^verbatim>\<open>p?.context?.region || "Unknown"\<close>\<close>

definition region_of :: "json \<Rightarrow> json" where
  "region_of p = or_default (opt_get (opt_get (Some p) ''context'') ''region'') (JStr ''Unknown'')"

text \<open>The five conditional increments of both entry points, in source order.\<close>

definition count_ballot :: "db \<Rightarrow> json \<Rightarrow> db" where
  "count_ballot d p =
     (let approve = approve_of p;
          prefer = prefer_of p;
          both = (approve \<and> prefer);
          neither = (\<not> approve \<and> \<not> prefer);
          d1 = inc d ''total_submissions_counted'';
          d2 = (if approve then inc d1 ''approve_interim_yes'' else d1);
          d3 = (if prefer then inc d2 ''prefer_open_contest_yes'' else d2);
          d4 = (if both then inc d3 ''both_selected'' else d3)
      in if neither then inc d4 ''neither_selected'' else d4)"

text \<open>\<^verbatim>\<open>updateAggregates\<close> of \<^verbatim>\<open>worker.js\<close>.\<close>

definition updateAggregates :: "db \<Rightarrow> json \<Rightarrow> db" where
  "updateAggregates d p =
     update_region (insert_region_or_ignore (count_ballot d p) (region_of p))
       (if approve_of p then 1 else 0) (region_of p)"

text \<open>\<^verbatim>\<open>updateAggregates\<close> of the second entry point.\<close>

definition updateAggregates_part0 :: "db \<Rightarrow> json \<Rightarrow> db" where
  "updateAggregates_part0 d p =
     upsert_region (count_ballot d p) (region_of p) (if approve_of p then 1 else 0)"

section \<open>Submission intake\<close>

text \<open>
  A response is its status and its body: \<^verbatim>\<open>{ok: false, error, details}\<close> or
  \<^verbatim>\<open>{ok: true, receipt_id, counted, message}\<close>. A handler either responds or
  throws, and returns the database as it leaves it. \<open>now\<close> is
  \<^verbatim>\<open>new Date().toISOString()\<close>; the body is \<open>None\<close> when
  \<^verbatim>\<open>request.json()\<close> throws.
\<close>

datatype body =
    Rejected string "string list option"
  | Accepted string bool string

type_synonym response = "nat \<times> body"

fun ok :: "body \<Rightarrow> bool" where
  "ok (Rejected err details) = False"
| "ok (Accepted rid counted message) = True"

text \<open>Lines 110 to 126 of \<^verbatim>\<open>handleSubmit\<close> in \<^verbatim>\<open>worker.js\<close>.\<close>

definition store_and_count :: "string \<Rightarrow> db \<Rightarrow> json \<Rightarrow> string \<Rightarrow> (error + response) \<times> db" where
  "store_and_count now d payload key =
     (case get (Some payload) ''context'' of
        Inl e \<Rightarrow> (Inl e, d)
      | Inr ctx \<Rightarrow>
     (case get ctx ''region'' of
        Inl e \<Rightarrow> (Inl e, d)
      | Inr r \<Rightarrow>
     (case insert_submission d
             \<lparr>receipt_id = receiptId key, dedupe_key = key, created_utc = now,
              region = or_default r (JStr ''Unknown''), payload_json = payload\<rparr> of
        Inl e \<Rightarrow> (Inl e, d)
      | Inr d' \<Rightarrow>
          (Inr (200, Accepted (receiptId key) True ''Submission received and counted.''),
           updateAggregates d' payload))))"

text \<open>
  \<^verbatim>\<open>handleSubmit\<close> of \<^verbatim>\<open>worker.js\<close>. What it throws, \<^verbatim>\<open>fetch\<close> catches and
  answers with status 500 and the error \<^verbatim>\<open>UNHANDLED\<close>.
\<close>

definition handleSubmit :: "string \<Rightarrow> db \<Rightarrow> json option \<Rightarrow> (error + response) \<times> db" where
  "handleSubmit now d request =
     (case request of
        None \<Rightarrow> (Inr (400, Rejected ''BAD_JSON'' None), d)
      | Some payload \<Rightarrow>
          if validatePayload payload \<noteq> []
          then (Inr (422, Rejected ''VALIDATION_FAILED'' (Some (validatePayload payload))), d)
          else
            (case dedupeKey payload of
               Inl e \<Rightarrow> (Inl e, d)
             | Inr key \<Rightarrow>
                 (case ensureSchema d of
                    Inl e \<Rightarrow> (Inl e, d)
                  | Inr d1 \<Rightarrow>
                 (case select_receipt_id d1 key of
                    None \<Rightarrow> store_and_count now d1 payload key
                  | Some existing \<Rightarrow>
                      if existing \<noteq> []
                      then (Inr (200, Accepted existing False ''Duplicate detected (already counted).''),
                            d1)
                      else store_and_count now d1 payload key))))"

text \<open>Lines 51 to 65 of \<^verbatim>\<open>handleSubmit\<close> in the second entry point.\<close>

definition store_and_count_part0 :: "string \<Rightarrow> db \<Rightarrow> json \<Rightarrow> string \<Rightarrow> (error + response) \<times> db" where
  "store_and_count_part0 now d payload key =
     (case insert_submission d
             \<lparr>receipt_id = receiptId key, dedupe_key = key, created_utc = now,
              region = region_of payload, payload_json = payload\<rparr> of
        Inl e \<Rightarrow> (Inl e, d)
      | Inr d' \<Rightarrow>
          (Inr (200, Accepted (receiptId key) True ''Submission received and counted.''),
           updateAggregates_part0 d' payload))"

text \<open>\<^verbatim>\<open>handleSubmit\<close> of the second entry point, which does not call \<^verbatim>\<open>ensureSchema\<close>.\<close>

definition handleSubmit_part0 :: "string \<Rightarrow> db \<Rightarrow> json option \<Rightarrow> (error + response) \<times> db" where
  "handleSubmit_part0 now d request =
     (case request of
        None \<Rightarrow> (Inr (400, Rejected ''BAD_JSON'' None), d)
      | Some payload \<Rightarrow>
          if validate payload \<noteq> []
          then (Inr (422, Rejected ''VALIDATION_FAILED'' (Some (validate payload))), d)
          else
            (case dedupeKey payload of
               Inl e \<Rightarrow> (Inl e, d)
             | Inr key \<Rightarrow>
                 (case select_receipt_id d key of
                    None \<Rightarrow> store_and_count_part0 now d payload key
                  | Some existing \<Rightarrow>
                      if existing \<noteq> []
                      then (Inr (200, Accepted existing False ''Duplicate detected (already counted).''), d)
                      else store_and_count_part0 now d payload key)))"

text \<open>
  Lines 29 to 49 of \<^verbatim>\<open>handleSubmit\<close> in the second entry point, up to the
  \<^verbatim>\<open>SELECT\<close> and the test of its result: either the request is answered there, or
  no row with the key was seen and the handler goes on to the \<^verbatim>\<open>INSERT\<close>. Every
  \<^verbatim>\<open>await\<close> between the two statements lets another request run.
\<close>

datatype checked = Answered "error + response" | Absent json string

definition check_duplicate_part0 :: "db \<Rightarrow> json option \<Rightarrow> checked" where
  "check_duplicate_part0 d request =
     (case request of
        None \<Rightarrow> Answered (Inr (400, Rejected ''BAD_JSON'' None))
      | Some payload \<Rightarrow>
          if validate payload \<noteq> []
          then Answered (Inr (422, Rejected ''VALIDATION_FAILED'' (Some (validate payload))))
          else
            (case dedupeKey payload of
               Inl e \<Rightarrow> Answered (Inl e)
             | Inr key \<Rightarrow>
                 (case select_receipt_id d key of
                    None \<Rightarrow> Absent payload key
                  | Some existing \<Rightarrow>
                      if existing \<noteq> []
                      then Answered (Inr (200, Accepted existing False
                                              ''Duplicate detected (already counted).''))
                      else Absent payload key)))"

text \<open>
  Requests handled one after the other by a handler \<open>h\<close>, each with its own clock
  reading: the database after a sequence of requests, and the responses to one payload
  sent again and again.
\<close>

type_synonym handler = "string \<Rightarrow> db \<Rightarrow> json option \<Rightarrow> (error + response) \<times> db"

fun submit_all :: "handler \<Rightarrow> db \<Rightarrow> (string \<times> json option) list \<Rightarrow> db" where
  "submit_all h d [] = d"
| "submit_all h d ((now, request) # rs) = submit_all h (snd (h now d request)) rs"

fun resubmit :: "handler \<Rightarrow> db \<Rightarrow> json \<Rightarrow> string list \<Rightarrow> (error + response) list \<times> db" where
  "resubmit h d payload [] = ([], d)"
| "resubmit h d payload (now # clock) =
     (fst (h now d (Some payload)) # fst (resubmit h (snd (h now d (Some payload))) payload clock),
      snd (resubmit h (snd (h now d (Some payload))) payload clock))"

section \<open>Reading the ledger\<close>

text \<open>
  \<^verbatim>\<open>agg.k || 0\<close> on \<^verbatim>\<open>Object.fromEntries\<close> of the rows of \<^verbatim>\<open>aggregates\<close>,
  whose primary key is \<^verbatim>\<open>k\<close>.
\<close>

definition counter :: "db \<Rightarrow> string \<Rightarrow> nat" where
  "counter d k = (case map_of (aggregates d) k of None \<Rightarrow> 0 | Some v \<Rightarrow> v)"

text \<open>The \<^verbatim>\<open>total\<close> column of a row of \<^verbatim>\<open>region_counts\<close>.\<close>

definition region_total :: "json \<times> nat \<times> nat \<Rightarrow> nat" where
  "region_total row = fst (snd row)"

text \<open>The row that an accepted submission adds to \<^verbatim>\<open>submissions\<close>.\<close>

definition new_row :: "string \<Rightarrow> json \<Rightarrow> string \<Rightarrow> submission" where
  "new_row now p key =
     \<lparr>receipt_id = receiptId key, dedupe_key = key, created_utc = now,
      region = region_of p, payload_json = p\<rparr>"

section \<open>Example requests\<close>

text \<open>
  A payload with every required field and both ballot fields, for a given voter and
  region.
\<close>

definition example_ballot :: "string \<Rightarrow> string \<Rightarrow> bool \<Rightarrow> bool \<Rightarrow> json" where
  "example_ballot voter place approve prefer =
     JObj [(''schema_version'', JStr ''1''),
           (''created_utc'', JStr ''2026-01-05T12:00:00.000Z''),
           (''voter_id'', JStr voter),
           (''context'', JObj [(''region'', JStr place), (''country_or_territory'', JStr ''US'')]),
           (''ballot_track_a'',
              JObj [(''approve_interim_masculine_regent'', JBool approve),
                    (''prefer_open_contest_in_approx_90_days'', JBool prefer)])]"

text \<open>
  The database after the ballot of voter \<^verbatim>\<open>v1\<close> for region \<^verbatim>\<open>CA\<close>, approving
  and not preferring, was counted on an empty database.
\<close>

definition after_v1 :: db where
  "after_v1 =
     \<lparr>submissions =
        [\<lparr>receipt_id = ''r_5080479f'',
          dedupe_key = ''3b90893ec3071c364f721426d543910942e4b633446521ab133337404f8f1885'',
          created_utc = ''2026-01-05T12:00:01.000Z'',
          region = JStr ''CA'',
          payload_json = example_ballot ''v1'' ''CA'' True False\<rparr>],
      aggregates = [(''total_submissions_counted'', 1), (''approve_interim_yes'', 1)],
      region_counts = [(JStr ''CA'', 1, 1)]\<rparr>"

text \<open>The same for voter \<^verbatim>\<open>v13818\<close>.\<close>

definition after_v13818 :: db where
  "after_v13818 =
     \<lparr>submissions =
        [\<lparr>receipt_id = ''r_dbf3c1dc'',
          dedupe_key = ''9c608b34839d45b03e3ac2709aa787af29e696ecea72667802af23b34af22c76'',
          created_utc = ''2026-01-05T12:00:01.000Z'',
          region = JStr ''CA'',
          payload_json = example_ballot ''v13818'' ''CA'' True False\<rparr>],
      aggregates = [(''total_submissions_counted'', 1), (''approve_interim_yes'', 1)],
      region_counts = [(JStr ''CA'', 1, 1)]\<rparr>"

section \<open>Ledger consistency\<close>

text \<open>What the ballot of a stored row selects.\<close>

definition selects_both :: "submission \<Rightarrow> bool" where
  "selects_both r = (approve_of (payload_json r) \<and> prefer_of (payload_json r))"

definition selects_neither :: "submission \<Rightarrow> bool" where
  "selects_neither r = (\<not> approve_of (payload_json r) \<and> \<not> prefer_of (payload_json r))"

definition selects_exactly_one :: "submission \<Rightarrow> bool" where
  "selects_exactly_one r = (approve_of (payload_json r) \<noteq> prefer_of (payload_json r))"

text \<open>
  The counters agree with the stored rows, and the keys of the three tables are
  unique.
\<close>

definition ledger_inv :: "db \<Rightarrow> bool" where
  "ledger_inv d =
     (distinct (map dedupe_key (submissions d))
      \<and> distinct (map fst (region_counts d))
      \<and> counter d ''total_submissions_counted'' = length (submissions d)
      \<and> counter d ''approve_interim_yes'' =
          length (filter (\<lambda>r. approve_of (payload_json r)) (submissions d))
      \<and> counter d ''prefer_open_contest_yes'' =
          length (filter (\<lambda>r. prefer_of (payload_json r)) (submissions d))
      \<and> counter d ''both_selected'' = length (filter selects_both (submissions d))
      \<and> counter d ''neither_selected'' = length (filter selects_neither (submissions d))
      \<and> sum_list (map region_total (region_counts d)) = length (submissions d))"

section \<open>The validator's contract in the words of the specification\<close>

text \<open>
  The five required fields as paths, the value found along a path, and the dotted name
  of a path. A field counts as missing when that value is not truthy.
\<close>

definition required_fields :: "string list list" where
  "required_fields =
     [[''schema_version''], [''created_utc''], [''voter_id''],
      [''context'', ''region''], [''context'', ''country_or_territory'']]"

fun read_path :: "json option \<Rightarrow> string list \<Rightarrow> json option" where
  "read_path v [] = v"
| "read_path v (k # ks) = read_path (opt_get v k) ks"

fun dotted :: "string list \<Rightarrow> string" where
  "dotted [] = []"
| "dotted [k] = k"
| "dotted (k # k' # ks) = k @ ''.'' @ dotted (k' # ks)"

definition spec_missing_fields :: "json \<Rightarrow> string list list" where
  "spec_missing_fields p = filter (\<lambda>path. \<not> truthy (read_path (Some p) path)) required_fields"

definition spec_messages :: "json \<Rightarrow> string list" where
  "spec_messages p = map (\<lambda>path. ''Missing '' @ dotted path) (spec_missing_fields p)"

section \<open>JavaScript numbers of the report\<close>

text \<open>
  A JavaScript number is an IEEE 754 double. The numbers of the report are counts,
  quotients and products of them, all non-negative and far inside the exponent range, so
  a number is held as a mantissa and a binary exponent, \<open>(m, e)\<close> for \<open>m * 2 ^ e\<close>,
  and an operation rounds its exact result to 53 significant bits, ties to the even
  mantissa. Infinities, NaN and subnormal numbers are not represented: the only division
  by a count is guarded by \<^verbatim>\<open>total ? ... : null\<close>.
\<close>

type_synonym number = "int \<times> int"

definition val :: "number \<Rightarrow> rat" where
  "val x = of_int (fst x) * 2 powi snd x"

text \<open>The exponent \<open>e\<close> with \<open>2 ^ e \<le> a / b < 2 ^ (e + 1)\<close>, for positive \<open>a\<close> and \<open>b\<close>.\<close>

definition binade :: "int \<Rightarrow> int \<Rightarrow> int" where
  "binade a b =
     (if (if 0 \<le> bitlen a - bitlen b then b * 2 ^ nat (bitlen a - bitlen b) \<le> a
          else b \<le> a * 2 ^ nat (bitlen b - bitlen a))
      then bitlen a - bitlen b else bitlen a - bitlen b - 1)"

text \<open>The integer nearest to \<open>n / d\<close>, the even one of two equally near, for positive \<open>d\<close>.\<close>

definition nearest_even :: "int \<Rightarrow> int \<Rightarrow> int" where
  "nearest_even n d =
     (if 2 * (n mod d) < d then n div d
      else if d < 2 * (n mod d) then n div d + 1
      else if even (n div d) then n div d else n div d + 1)"

text \<open>The double nearest to \<open>a / b\<close>.\<close>

definition to_double :: "int \<Rightarrow> int \<Rightarrow> number" where
  "to_double a b =
     (if a \<le> 0 \<or> b \<le> 0 then (0, 0)
      else if 0 \<le> binade a b - 52
        then (nearest_even a (b * 2 ^ nat (binade a b - 52)), binade a b - 52)
        else (nearest_even (a * 2 ^ nat (52 - binade a b)) b, binade a b - 52))"

text \<open>\<^verbatim>\<open>x / y\<close> and \<^verbatim>\<open>x * y\<close>\<close>

definition js_div :: "number \<Rightarrow> number \<Rightarrow> number" where
  "js_div x y =
     (fst (to_double (fst x) (fst y)), snd (to_double (fst x) (fst y)) + snd x - snd y)"

definition js_mul :: "number \<Rightarrow> number \<Rightarrow> number" where
  "js_mul x y =
     (fst (to_double (fst x * fst y) 1), snd (to_double (fst x * fst y) 1) + snd x + snd y)"

text \<open>\<^verbatim>\<open>Math.round(x)\<close>, the integer \<open>\<lfloor>x + 1/2\<rfloor>\<close>, computed exactly.\<close>

definition Math_round :: "number \<Rightarrow> number" where
  "Math_round x =
     (if 0 \<le> snd x then fst x * 2 ^ nat (snd x)
      else (2 * fst x + 2 ^ nat (- snd x)) div (2 * 2 ^ nat (- snd x)), 0)"

text \<open>\<^verbatim>\<open>round1(x)\<close> of \<^verbatim>\<open>worker.js\<close>: \<^verbatim>\<open>Math.round(x * 10) / 10\<close>\<close>

definition round1 :: "number \<Rightarrow> number" where
  "round1 x = js_div (Math_round (js_mul x (10, 0))) (10, 0)"

section \<open>Results report\<close>

text \<open>
  \<^verbatim>\<open>total ? round1((count / total) * 100) : null\<close>, the expression of the three rates
  of \<^verbatim>\<open>worker.js\<close>; the two counts are integers read from the database.
\<close>

definition rate_percent :: "nat \<Rightarrow> nat \<Rightarrow> number option" where
  "rate_percent part whole =
     (if whole = 0 then None
      else Some (round1 (js_mul (js_div (to_double (int part) 1) (to_double (int whole) 1)) (100, 0))))"

text \<open>
  \<^verbatim>\<open>total ? Math.round((count / total) * 1000) / 10 : null\<close>, the expression of the
  second entry point.
\<close>

definition rate_percent_part0 :: "nat \<Rightarrow> nat \<Rightarrow> number option" where
  "rate_percent_part0 part whole =
     (if whole = 0 then None
      else Some (js_div (Math_round
             (js_mul (js_div (to_double (int part) 1) (to_double (int whole) 1)) (1000, 0))) (10, 0)))"

record ballot_report =
  total_submissions_counted :: nat
  approve_interim_yes :: nat
  prefer_open_contest_yes :: nat
  both_selected :: nat
  neither_selected :: nat
  approval_rate_percent :: "number option"
  prefer_open_rate_percent :: "number option"

text \<open>
  The body of the report. \<open>window\<close> is \<^verbatim>\<open>{open, close, timezone}\<close>, an entry of
  \<open>regional_balance\<close> is \<^verbatim>\<open>{region, submissions_counted, approve_rate_percent}\<close>,
  and \<^verbatim>\<open>malcolm_insights\<close> is always \<^verbatim>\<open>null\<close>.
\<close>

record report =
  last_updated_utc :: string
  window :: "string \<times> string \<times> string"
  ballot :: ballot_report
  regional_balance :: "(json \<times> nat \<times> number option) list"
  malcolm_insights :: json

text \<open>
  \<^verbatim>\<open>handleResults\<close> of \<^verbatim>\<open>worker.js\<close>: what \<^verbatim>\<open>ensureSchema\<close> throws, or status
  and body.
\<close>

definition handleResults :: "string \<Rightarrow> db \<Rightarrow> error + nat \<times> report" where
  "handleResults now d0 =
     (case ensureSchema d0 of
        Inl e \<Rightarrow> Inl e
      | Inr d \<Rightarrow>
     (let total = counter d ''total_submissions_counted'';
          approve = counter d ''approve_interim_yes'';
          prefer = counter d ''prefer_open_contest_yes'';
          both = counter d ''both_selected'';
          neither = counter d ''neither_selected''
      in Inr (200,
          \<lparr>last_updated_utc = now,
           window = (''2026-01-03'', ''2026-02-02'', ''America/Los_Angeles''),
           ballot =
             \<lparr>total_submissions_counted = total,
              approve_interim_yes = approve,
              prefer_open_contest_yes = prefer,
              both_selected = both,
              neither_selected = neither,
              approval_rate_percent = rate_percent approve total,
              prefer_open_rate_percent = rate_percent prefer total\<rparr>,
           regional_balance =
             map (\<lambda>(r, t, a). (r, t, rate_percent a t)) (region_counts d),
           malcolm_insights = JNull\<rparr>)))"

text \<open>\<^verbatim>\<open>handleResults\<close> of the second entry point.\<close>

definition handleResults_part0 :: "string \<Rightarrow> db \<Rightarrow> nat \<times> report" where
  "handleResults_part0 now d =
     (let total = counter d ''total_submissions_counted'';
          approve = counter d ''approve_interim_yes'';
          prefer = counter d ''prefer_open_contest_yes'';
          both = counter d ''both_selected'';
          neither = counter d ''neither_selected''
      in (200,
          \<lparr>last_updated_utc = now,
           window = (''2026-01-03'', ''2026-02-02'', ''America/Los_Angeles''),
           ballot =
             \<lparr>total_submissions_counted = total,
              approve_interim_yes = approve,
              prefer_open_contest_yes = prefer,
              both_selected = both,
              neither_selected = neither,
              approval_rate_percent = rate_percent_part0 approve total,
              prefer_open_rate_percent = rate_percent_part0 prefer total\<rparr>,
           regional_balance =
             map (\<lambda>(r, t, a). (r, t, rate_percent_part0 a t)) (region_counts d),
           malcolm_insights = JNull\<rparr>))"

section \<open>Basic facts\<close>

subsection \<open>Validators\<close>


lemma truthy_opt_get: "truthy (opt_get v k) \<Longrightarrow> \<exists>kvs. v = Some (JObj kvs)"
  by (cases "(v, k)" rule: opt_get.cases) auto

lemma validate_empty_iff:
  "validate p = [] \<longleftrightarrow>
     truthy (opt_get (Some p) ''schema_version'') \<and> truthy (opt_get (Some p) ''created_utc'')
   \<and> truthy (opt_get (Some p) ''voter_id'')
   \<and> truthy (opt_get (opt_get (Some p) ''context'') ''region'')
   \<and> truthy (opt_get (opt_get (Some p) ''context'') ''country_or_territory'')"
  by (simp add: validate_def)

lemma validatePayload_empty_iff: "validatePayload p = [] \<longleftrightarrow> validate p = []"
proof
  assume v: "validate p = []"
  then obtain kvs where p: "p = JObj kvs"
    using truthy_opt_get[of "Some p" "''schema_version''"] by (auto simp: validate_empty_iff)
  from v obtain cs where c: "opt_get (Some p) ''context'' = Some (JObj cs)"
    using truthy_opt_get[of "opt_get (Some p) ''context''" "''region''"]
    by (auto simp: validate_empty_iff)
  from c p have c': "map_of kvs ''context'' = Some (JObj cs)" by simp
  from v show "validatePayload p = []"
    unfolding validate_empty_iff by (simp add: validatePayload_def p c')
next
  assume "validatePayload p = []"
  then show "validate p = []"
    by (simp add: validatePayload_def validate_def split: if_splits)
qed


subsection \<open>Counters\<close>

lemma submissions_inc: "submissions (inc d k) = submissions d"
  by (simp add: inc_def)

lemma region_counts_inc: "region_counts (inc d k) = region_counts d"
  by (simp add: inc_def)

lemma map_of_bump:
  "map_of (map (\<lambda>(k, v). if k = key then (k, v + 1) else (k, v)) rows) k' =
     (if k' = key then map_option (\<lambda>v. v + 1) (map_of rows k') else map_of rows k')"
  by (induction rows) auto

lemma counter_inc: "counter (inc d key) k = (if k = key then counter d k + 1 else counter d k)"
proof (cases "key \<in> set (map fst (aggregates d))")
  case True
  then obtain v where "map_of (aggregates d) key = Some v"
    by (metis (no_types, opaque_lifting) domD dom_map_of_conv_image_fst set_map)
  with True show ?thesis
    by (simp add: counter_def inc_def map_of_bump)
next
  case False
  then have "map_of (aggregates d) key = None"
    by (simp add: map_of_eq_None_iff)
  with False show ?thesis
    by (auto simp: counter_def inc_def map_add_def split: option.splits)
qed

lemma submissions_count_ballot: "submissions (count_ballot d p) = submissions d"
  by (simp add: count_ballot_def Let_def submissions_inc)

lemma region_counts_count_ballot: "region_counts (count_ballot d p) = region_counts d"
  by (simp add: count_ballot_def Let_def region_counts_inc)

lemma counter_count_ballot:
  "counter (count_ballot d p) ''total_submissions_counted'' = counter d ''total_submissions_counted'' + 1"
  "counter (count_ballot d p) ''both_selected'' =
     counter d ''both_selected'' + (if approve_of p \<and> prefer_of p then 1 else 0)"
  "counter (count_ballot d p) ''neither_selected'' =
     counter d ''neither_selected'' + (if \<not> approve_of p \<and> \<not> prefer_of p then 1 else 0)"
  "counter (count_ballot d p) ''approve_interim_yes'' =
     counter d ''approve_interim_yes'' + (if approve_of p then 1 else 0)"
  "counter (count_ballot d p) ''prefer_open_contest_yes'' =
     counter d ''prefer_open_contest_yes'' + (if prefer_of p then 1 else 0)"
  by (simp_all add: count_ballot_def Let_def counter_inc)

subsection \<open>Region rows\<close>

lemma bump_absent:
  "r \<notin> set (map fst rows) \<Longrightarrow>
   map (\<lambda>(r', t, a). if r' = r then (r', t + 1, a + n) else (r', t, a)) rows = rows"
  by (induction rows) auto

lemma update_after_insert: "update_region (insert_region_or_ignore d r) n r = upsert_region d r n"
  by (simp add: update_region_def insert_region_or_ignore_def upsert_region_def bump_absent)

lemma updateAggregates_same: "updateAggregates d p = updateAggregates_part0 d p"
  by (simp add: updateAggregates_def updateAggregates_part0_def update_after_insert)

lemma submissions_upsert_region: "submissions (upsert_region d r n) = submissions d"
  by (simp add: upsert_region_def)

lemma aggregates_upsert_region: "aggregates (upsert_region d r n) = aggregates d"
  by (simp add: upsert_region_def)

lemma counter_upsert_region: "counter (upsert_region d r n) k = counter d k"
  by (simp add: counter_def aggregates_upsert_region)

lemma submissions_updateAggregates: "submissions (updateAggregates d p) = submissions d"
  by (simp add: updateAggregates_same updateAggregates_part0_def submissions_upsert_region
      submissions_count_ballot)

lemma counter_updateAggregates:
  "counter (updateAggregates d p) k = counter (count_ballot d p) k"
  by (simp add: updateAggregates_same updateAggregates_part0_def counter_upsert_region)


lemma sum_bump_present:
  "distinct (map fst rows) \<Longrightarrow> r \<in> set (map fst rows) \<Longrightarrow>
   sum_list (map region_total
     (map (\<lambda>(r', t, a). if r' = r then (r', t + 1, a + n) else (r', t, a)) rows))
   = sum_list (map region_total rows) + 1"
proof (induction rows)
  case Nil
  then show ?case by simp
next
  case (Cons row rows)
  obtain r' t a where row: "row = (r', t, a)" by (cases row)
  show ?case
  proof (cases "r' = r")
    case True
    with Cons.prems row have "r \<notin> set (map fst rows)" by auto
    with True row show ?thesis by (simp add: bump_absent region_total_def)
  next
    case False
    with Cons row show ?thesis by (simp add: region_total_def)
  qed
qed

lemma keys_bump:
  "map fst (map (\<lambda>(r', t, a). if r' = r then (r', t + 1, a + n) else (r', t, a)) rows) = map fst rows"
  by (induction rows) auto

lemma sum_upsert_region:
  "distinct (map fst (region_counts d)) \<Longrightarrow>
   sum_list (map region_total (region_counts (upsert_region d r n)))
     = sum_list (map region_total (region_counts d)) + 1"
proof (cases "r \<in> set (map fst (region_counts d))")
  case True
  assume "distinct (map fst (region_counts d))"
  from sum_bump_present[OF this True] True show ?thesis
    by (simp add: upsert_region_def)
next
  case False
  then show ?thesis by (simp add: upsert_region_def region_total_def)
qed

lemma distinct_upsert_region:
  "distinct (map fst (region_counts d)) \<Longrightarrow> distinct (map fst (region_counts (upsert_region d r n)))"
  using keys_bump[of r n "region_counts d"] by (auto simp: upsert_region_def simp del: map_map)


subsection \<open>Handlers\<close>

lemma valid_shape:
  assumes "validatePayload p = []"
  shows "\<exists>kvs cs. p = JObj kvs \<and> map_of kvs ''context'' = Some (JObj cs)
           \<and> truthy (map_of cs ''region'')"
proof -
  from assms have v: "validate p = []" by (simp add: validatePayload_empty_iff)
  then obtain kvs where p: "p = JObj kvs"
    using truthy_opt_get[of "Some p" "''schema_version''"] by (auto simp: validate_empty_iff)
  from v obtain cs where "opt_get (Some p) ''context'' = Some (JObj cs)"
    using truthy_opt_get[of "opt_get (Some p) ''context''" "''region''"]
    by (auto simp: validate_empty_iff)
  with p have c: "map_of kvs ''context'' = Some (JObj cs)" by simp
  from v p c have "truthy (map_of cs ''region'')" by (simp add: validate_empty_iff)
  with p c show ?thesis by blast
qed

lemma store_and_count_same:
  assumes "validatePayload p = []"
  shows "store_and_count now d p key = store_and_count_part0 now d p key"
proof -
  from valid_shape[OF assms] obtain kvs cs where
    p: "p = JObj kvs" and c: "map_of kvs ''context'' = Some (JObj cs)" by blast
  show ?thesis
    by (simp add: store_and_count_def store_and_count_part0_def p c region_of_def
        updateAggregates_same cong: sum.case_cong)
qed

lemma ensureSchema_throws: "ensureSchema d = Inl ExecError"
  by (simp add: ensureSchema_def schema_script_def whole_statement_def)

lemma handleSubmit_throws:
  assumes "validatePayload p = []" and "dedupeKey p = Inr key"
  shows "handleSubmit now d (Some p) = (Inl ExecError, d)"
  using assms by (simp add: handleSubmit_def ensureSchema_throws)

lemma handleSubmit_state: "snd (handleSubmit now d request) = d"
  by (simp add: handleSubmit_def ensureSchema_throws split: option.splits sum.splits)

lemma submit_all_handleSubmit: "submit_all handleSubmit d rs = d"
  by (induction rs arbitrary: d) (auto simp: handleSubmit_state)

lemma handleSubmit_never_accepts: "fst (handleSubmit now d request) \<noteq> Inr (status, Accepted rid counted msg)"
  by (simp add: handleSubmit_def ensureSchema_throws split: option.splits sum.splits)

lemma receiptId_nonempty: "receiptId key \<noteq> []"
  by (simp add: receiptId_def)

lemma select_absent:
  "key \<notin> set (map dedupe_key (submissions d)) \<Longrightarrow> select_receipt_id d key = None"
  by (auto simp: select_receipt_id_def find_None_iff)

lemma handleSubmit_part0_counted:
  assumes "validate p = []" and "dedupeKey p = Inr key"
    and "key \<notin> set (map dedupe_key (submissions d))"
    and "receiptId key \<notin> set (map receipt_id (submissions d))"
  shows "handleSubmit_part0 now d (Some p) =
           (Inr (200, Accepted (receiptId key) True ''Submission received and counted.''),
            updateAggregates_part0 (d\<lparr>submissions := submissions d @ [new_row now p key]\<rparr>) p)"
  using assms
  by (simp add: handleSubmit_part0_def select_absent store_and_count_part0_def
      insert_submission_def new_row_def)

lemma handleSubmit_part0_duplicate:
  assumes "validate p = []" and "dedupeKey p = Inr key"
    and "find (\<lambda>r. dedupe_key r = key) (submissions d) = Some row" and "receipt_id row \<noteq> []"
  shows "handleSubmit_part0 now d (Some p) =
           (Inr (200, Accepted (receipt_id row) False ''Duplicate detected (already counted).''), d)"
  using assms by (simp add: handleSubmit_part0_def select_receipt_id_def)

lemma handleSubmit_part0_state:
  "snd (handleSubmit_part0 now d request) = d
   \<or> (\<exists>p key. request = Some p \<and> key \<notin> set (map dedupe_key (submissions d))
        \<and> snd (handleSubmit_part0 now d request) =
            updateAggregates_part0 (d\<lparr>submissions := submissions d @ [new_row now p key]\<rparr>) p)"
  by (auto simp: handleSubmit_part0_def store_and_count_part0_def insert_submission_def
      new_row_def split: option.splits sum.splits if_splits)

subsection \<open>Example requests\<close>

lemma ballot_valid: "validatePayload (example_ballot voter place approve prefer) = []"
  if "voter \<noteq> []" and "place \<noteq> []"
  using that by (simp add: validatePayload_def example_ballot_def)

lemma ballot_valid_part0: "validate (example_ballot voter place approve prefer) = []"
  if "voter \<noteq> []" and "place \<noteq> []"
  using that by (simp add: validate_def example_ballot_def)

lemma ballot_key:
  "dedupeKey (example_ballot voter place approve prefer) = Inr (sha256 (voter @ ''|1|2026-01-03_to_2026-02-02''))"
  by (simp add: dedupeKey_def example_ballot_def windowId_def)

lemma ballot_region: "region_of (example_ballot voter place approve prefer) = JStr place"
  if "place \<noteq> []"
  using that by (simp add: region_of_def example_ballot_def)

lemma ballot_choices:
  "approve_of (example_ballot voter place approve prefer) = approve"
  "prefer_of (example_ballot voter place approve prefer) = prefer"
  by (simp_all add: approve_of_def prefer_of_def example_ballot_def)

subsection \<open>Repeated submission\<close>

lemma resubmit_part0_duplicate:
  assumes "validate p = []" and "dedupeKey p = Inr key"
    and "find (\<lambda>r. dedupe_key r = key) (submissions d) = Some row" and "receipt_id row \<noteq> []"
  shows "resubmit handleSubmit_part0 d p clock =
           (replicate (length clock)
              (Inr (200, Accepted (receipt_id row) False ''Duplicate detected (already counted).'')), d)"
  by (induction clock) (simp_all add: handleSubmit_part0_duplicate[OF assms])

lemma find_appended:
  "key \<notin> set (map dedupe_key rows) \<Longrightarrow> dedupe_key row = key \<Longrightarrow>
   find (\<lambda>r. dedupe_key r = key) (rows @ [row]) = Some row"
  by (induction rows) auto

lemma resubmit_part0_counted_once:
  assumes "validate p = []" and "dedupeKey p = Inr key"
    and "key \<notin> set (map dedupe_key (submissions d))"
    and "receiptId key \<notin> set (map receipt_id (submissions d))"
  shows "resubmit handleSubmit_part0 d p (now # clock) =
           (Inr (200, Accepted (receiptId key) True ''Submission received and counted.'') #
            replicate (length clock)
              (Inr (200, Accepted (receiptId key) False ''Duplicate detected (already counted).'')),
            updateAggregates_part0 (d\<lparr>submissions := submissions d @ [new_row now p key]\<rparr>) p)"
proof -
  let ?d' = "updateAggregates_part0 (d\<lparr>submissions := submissions d @ [new_row now p key]\<rparr>) p"
  have first: "handleSubmit_part0 now d (Some p) =
      (Inr (200, Accepted (receiptId key) True ''Submission received and counted.''), ?d')"
    by (rule handleSubmit_part0_counted[OF assms])
  have "submissions ?d' = submissions d @ [new_row now p key]"
    by (simp add: updateAggregates_part0_def submissions_upsert_region submissions_count_ballot)
  then have "find (\<lambda>r. dedupe_key r = key) (submissions ?d') = Some (new_row now p key)"
    using assms(3) by (simp add: find_appended new_row_def)
  moreover have "receipt_id (new_row now p key) \<noteq> []"
    by (simp add: new_row_def receiptId_nonempty)
  ultimately have "resubmit handleSubmit_part0 ?d' p clock =
      (replicate (length clock)
         (Inr (200, Accepted (receipt_id (new_row now p key)) False
                      ''Duplicate detected (already counted).'')), ?d')"
    by (rule resubmit_part0_duplicate[OF assms(1,2)])
  with first show ?thesis by (simp add: new_row_def)
qed

subsection \<open>Digests of the example requests\<close>

lemma key_v1:
  "sha256 ''v1|1|2026-01-03_to_2026-02-02'' =
     ''3b90893ec3071c364f721426d543910942e4b633446521ab133337404f8f1885''"
  by code_simp

lemma receipt_v1:
  "sha256 ''3b90893ec3071c364f721426d543910942e4b633446521ab133337404f8f1885'' =
     ''5080479fd5f866e506fd894b98453d745e623a96de1c17bf44043d8864f2163b''"
  by code_simp

lemma key_v13818:
  "sha256 ''v13818|1|2026-01-03_to_2026-02-02'' =
     ''9c608b34839d45b03e3ac2709aa787af29e696ecea72667802af23b34af22c76''"
  by code_simp

lemma receipt_v13818:
  "sha256 ''9c608b34839d45b03e3ac2709aa787af29e696ecea72667802af23b34af22c76'' =
     ''dbf3c1dc8d6ef99429a878f100aee0fbbf3eee7f4b0245cf121c9626a6c8c8f9''"
  by code_simp

lemma key_v146467:
  "sha256 ''v146467|1|2026-01-03_to_2026-02-02'' =
     ''b01fcb2230d8a41685e72e49228c3f105de27b59cc5f1eea3c605aa4d2875481''"
  by code_simp

lemma receipt_v146467:
  "sha256 ''b01fcb2230d8a41685e72e49228c3f105de27b59cc5f1eea3c605aa4d2875481'' =
     ''dbf3c1dceca173032c9309ceafb1d59f262bfbaf567fc9bda82b2f4da85c534a''"
  by code_simp

lemma first_ballot_v1:
  "handleSubmit_part0 ''2026-01-05T12:00:01.000Z'' empty_db (Some (example_ballot ''v1'' ''CA'' True False)) =
     (Inr (200, Accepted ''r_5080479f'' True ''Submission received and counted.''), after_v1)"
proof -
  have "handleSubmit_part0 ''2026-01-05T12:00:01.000Z'' empty_db (Some (example_ballot ''v1'' ''CA'' True False)) =
     (Inr (200, Accepted (receiptId (sha256 (''v1'' @ ''|1|2026-01-03_to_2026-02-02''))) True
                  ''Submission received and counted.''),
      updateAggregates_part0 (empty_db\<lparr>submissions := submissions empty_db @
         [new_row ''2026-01-05T12:00:01.000Z'' (example_ballot ''v1'' ''CA'' True False)
            (sha256 (''v1'' @ ''|1|2026-01-03_to_2026-02-02''))]\<rparr>) (example_ballot ''v1'' ''CA'' True False))"
    by (rule handleSubmit_part0_counted) (simp_all add: ballot_valid_part0 ballot_key empty_db_def)
  then show ?thesis
    by (simp add: key_v1 receipt_v1 receiptId_def new_row_def ballot_region ballot_choices
        updateAggregates_part0_def count_ballot_def inc_def upsert_region_def
        empty_db_def after_v1_def)
qed

lemma first_ballot_v13818:
  "handleSubmit_part0 ''2026-01-05T12:00:01.000Z'' empty_db (Some (example_ballot ''v13818'' ''CA'' True False)) =
     (Inr (200, Accepted ''r_dbf3c1dc'' True ''Submission received and counted.''), after_v13818)"
proof -
  have "handleSubmit_part0 ''2026-01-05T12:00:01.000Z'' empty_db (Some (example_ballot ''v13818'' ''CA'' True False)) =
     (Inr (200, Accepted (receiptId (sha256 (''v13818'' @ ''|1|2026-01-03_to_2026-02-02''))) True
                  ''Submission received and counted.''),
      updateAggregates_part0 (empty_db\<lparr>submissions := submissions empty_db @
         [new_row ''2026-01-05T12:00:01.000Z'' (example_ballot ''v13818'' ''CA'' True False)
            (sha256 (''v13818'' @ ''|1|2026-01-03_to_2026-02-02''))]\<rparr>) (example_ballot ''v13818'' ''CA'' True False))"
    by (rule handleSubmit_part0_counted) (simp_all add: ballot_valid_part0 ballot_key empty_db_def)
  then show ?thesis
    by (simp add: key_v13818 receipt_v13818 receiptId_def new_row_def ballot_region ballot_choices
        updateAggregates_part0_def count_ballot_def inc_def upsert_region_def
        empty_db_def after_v13818_def)
qed

subsection \<open>Ledger consistency\<close>

lemma ledger_inv_empty: "ledger_inv empty_db"
  by (simp add: ledger_inv_def empty_db_def counter_def)

lemma region_counts_submissions_update:
  "region_counts (d\<lparr>submissions := rows\<rparr>) = region_counts d"
  "aggregates (d\<lparr>submissions := rows\<rparr>) = aggregates d"
  by simp_all

lemma counter_submissions_update: "counter (d\<lparr>submissions := rows\<rparr>) k = counter d k"
  by (simp add: counter_def)

lemma ledger_inv_counted:
  assumes "ledger_inv d" and "key \<notin> set (map dedupe_key (submissions d))"
  shows "ledger_inv (updateAggregates_part0 (d\<lparr>submissions := submissions d @ [new_row now p key]\<rparr>) p)"
proof -
  let ?d1 = "d\<lparr>submissions := submissions d @ [new_row now p key]\<rparr>"
  let ?d2 = "count_ballot ?d1 p"
  let ?d3 = "upsert_region ?d2 (region_of p) (if approve_of p then 1 else 0)"
  have subs: "submissions ?d3 = submissions d @ [new_row now p key]"
    by (simp add: submissions_upsert_region submissions_count_ballot)
  have regs: "region_counts ?d2 = region_counts d"
    by (simp add: region_counts_count_ballot)
  have cnt: "counter ?d3 k = counter (count_ballot ?d1 p) k" for k
    by (simp add: counter_upsert_region)
  have pj: "payload_json (new_row now p key) = p" "dedupe_key (new_row now p key) = key"
    by (simp_all add: new_row_def)
  from assms have dist: "distinct (map fst (region_counts ?d2))"
    by (simp add: regs ledger_inv_def)
  have "distinct (map dedupe_key (submissions ?d3))"
    using assms by (simp add: subs pj ledger_inv_def)
  moreover have "distinct (map fst (region_counts ?d3))"
    by (rule distinct_upsert_region[OF dist])
  moreover have "sum_list (map region_total (region_counts ?d3)) = length (submissions ?d3)"
    using sum_upsert_region[OF dist] assms(1) by (simp add: subs regs ledger_inv_def)
  moreover have "counter ?d3 ''total_submissions_counted'' = length (submissions ?d3)"
    using assms(1) by (simp add: cnt subs counter_count_ballot counter_submissions_update ledger_inv_def)
  moreover have "counter ?d3 ''approve_interim_yes'' =
      length (filter (\<lambda>r. approve_of (payload_json r)) (submissions ?d3))"
    using assms(1) by (simp add: cnt subs pj counter_count_ballot counter_submissions_update ledger_inv_def)
  moreover have "counter ?d3 ''prefer_open_contest_yes'' =
      length (filter (\<lambda>r. prefer_of (payload_json r)) (submissions ?d3))"
    using assms(1) by (simp add: cnt subs pj counter_count_ballot counter_submissions_update ledger_inv_def)
  moreover have "counter ?d3 ''both_selected'' = length (filter selects_both (submissions ?d3))"
    using assms(1)
    by (simp add: cnt subs pj counter_count_ballot counter_submissions_update ledger_inv_def
        selects_both_def)
  moreover have "counter ?d3 ''neither_selected'' = length (filter selects_neither (submissions ?d3))"
    using assms(1)
    by (simp add: cnt subs pj counter_count_ballot counter_submissions_update ledger_inv_def
        selects_neither_def)
  ultimately show ?thesis
    unfolding updateAggregates_part0_def ledger_inv_def by blast
qed

lemma ledger_inv_handleSubmit_part0:
  "ledger_inv d \<Longrightarrow> ledger_inv (snd (handleSubmit_part0 now d request))"
  using handleSubmit_part0_state[of now d request] by (auto simp: ledger_inv_counted)

lemma ledger_inv_submit_all_part0:
  "ledger_inv d \<Longrightarrow> ledger_inv (submit_all handleSubmit_part0 d rs)"
  by (induction rs arbitrary: d) (auto simp: ledger_inv_handleSubmit_part0)

lemma selection_partition:
  "length (filter selects_both rows) + length (filter selects_neither rows)
     + length (filter selects_exactly_one rows) = length rows"
  by (induction rows) (auto simp: selects_both_def selects_neither_def selects_exactly_one_def)

subsection \<open>What a counted response tells\<close>

lemma get_valid:
  assumes "validatePayload p = []"
  shows "get (Some p) k = Inr (opt_get (Some p) k)"
proof -
  from valid_shape[OF assms] obtain kvs where "p = JObj kvs" by blast
  then show ?thesis by simp
qed

lemma dedupeKey_valid:
  assumes "validatePayload p = []"
  shows "dedupeKey p =
     (case template_string (opt_get (Some p) ''voter_id'') of
        Inl e \<Rightarrow> Inl e
      | Inr voter_text \<Rightarrow>
     (case template_string (opt_get (Some p) ''schema_version'') of
        Inl e \<Rightarrow> Inl e
      | Inr version_text \<Rightarrow>
          Inr (sha256 (voter_text @ ''|'' @ version_text @ ''|'' @ windowId))))"
  by (simp add: dedupeKey_def get_valid[OF assms] cong: sum.case_cong)

lemma dedupeKey_same_fields:
  assumes "validatePayload p = []" and "validatePayload q = []"
    and "opt_get (Some q) ''voter_id'' = opt_get (Some p) ''voter_id''"
    and "opt_get (Some q) ''schema_version'' = opt_get (Some p) ''schema_version''"
  shows "dedupeKey q = dedupeKey p"
  unfolding dedupeKey_valid[OF assms(1)] dedupeKey_valid[OF assms(2)] assms(3,4) ..

lemma handleSubmit_part0_counted_inversion:
  assumes "handleSubmit_part0 now d (Some p) = (Inr (status, Accepted rid True msg), d')"
  shows "validate p = [] \<and> (\<exists>key. dedupeKey p = Inr key
           \<and> key \<notin> set (map dedupe_key (submissions d))
           \<and> receiptId key \<notin> set (map receipt_id (submissions d))
           \<and> rid = receiptId key
           \<and> d' = updateAggregates_part0 (d\<lparr>submissions := submissions d @ [new_row now p key]\<rparr>) p)"
  using assms
  by (auto simp: handleSubmit_part0_def store_and_count_part0_def insert_submission_def
      new_row_def split: option.splits sum.splits if_splits)

lemma first_ballot:
  assumes "voter \<noteq> []" and "place \<noteq> []"
  shows "handleSubmit_part0 now empty_db (Some (example_ballot voter place approve prefer)) =
     (Inr (200, Accepted (receiptId (sha256 (voter @ ''|1|2026-01-03_to_2026-02-02''))) True
                  ''Submission received and counted.''),
      updateAggregates_part0 (empty_db\<lparr>submissions := submissions empty_db @
         [new_row now (example_ballot voter place approve prefer)
            (sha256 (voter @ ''|1|2026-01-03_to_2026-02-02''))]\<rparr>)
        (example_ballot voter place approve prefer))"
  by (rule handleSubmit_part0_counted) (simp_all add: ballot_valid_part0 assms ballot_key empty_db_def)

subsection \<open>Validators against the contract\<close>

lemma validate_spec_messages: "validate p = spec_messages p"
  by (simp add: validate_def spec_messages_def spec_missing_fields_def required_fields_def)

lemma spec_messages_empty_iff: "spec_messages p = [] \<longleftrightarrow> spec_missing_fields p = []"
  by (simp add: spec_messages_def)

lemma validatePayload_guard:
  "\<not> (truthy (Some p) \<and> typeof_object (Some p)) \<Longrightarrow>
   validatePayload p = [''Payload must be JSON object'']"
  by (auto simp: validatePayload_def)

lemma validatePayload_without_context_message:
  "truthy (Some p) \<and> typeof_object (Some p) \<Longrightarrow>
   filter (\<lambda>m. m \<noteq> ''Missing context object'') (validatePayload p) = validate p"
  by (simp add: validatePayload_def validate_def)

lemma validatePayload_context_message:
  "truthy (Some p) \<and> typeof_object (Some p) \<Longrightarrow>
   ''Missing context object'' \<in> set (validatePayload p) \<longleftrightarrow>
     \<not> (truthy (opt_get (Some p) ''context'') \<and> typeof_object (opt_get (Some p) ''context''))"
  by (simp add: validatePayload_def)

subsection \<open>The two phases of a submission\<close>

lemma handleSubmit_part0_phases:
  "handleSubmit_part0 now d request =
     (case check_duplicate_part0 d request of
        Answered a \<Rightarrow> (a, d)
      | Absent payload key \<Rightarrow> store_and_count_part0 now d payload key)"
  by (simp add: handleSubmit_part0_def check_duplicate_part0_def
      split: option.splits sum.splits)

lemma store_first_ballot_v1:
  "store_and_count_part0 ''2026-01-05T12:00:01.000Z'' empty_db (example_ballot ''v1'' ''CA'' True False)
     ''3b90893ec3071c364f721426d543910942e4b633446521ab133337404f8f1885'' =
   (Inr (200, Accepted ''r_5080479f'' True ''Submission received and counted.''), after_v1)"
proof -
  have "check_duplicate_part0 empty_db (Some (example_ballot ''v1'' ''CA'' True False)) =
      Absent (example_ballot ''v1'' ''CA'' True False)
        ''3b90893ec3071c364f721426d543910942e4b633446521ab133337404f8f1885''"
    by (simp add: check_duplicate_part0_def ballot_valid_part0 ballot_key key_v1
        select_receipt_id_def empty_db_def)
  then have "handleSubmit_part0 ''2026-01-05T12:00:01.000Z'' empty_db
        (Some (example_ballot ''v1'' ''CA'' True False)) =
      store_and_count_part0 ''2026-01-05T12:00:01.000Z'' empty_db (example_ballot ''v1'' ''CA'' True False)
        ''3b90893ec3071c364f721426d543910942e4b633446521ab133337404f8f1885''"
    by (simp add: handleSubmit_part0_phases)
  then show ?thesis
    by (simp add: first_ballot_v1)
qed

subsection \<open>What the fingerprint can throw\<close>

lemma ToString_throws:
  "ToString v = Inl e \<Longrightarrow> e = TypeError"
  "join_elements xs = Inl e \<Longrightarrow> e = TypeError"
  "element_string v = Inl e \<Longrightarrow> e = TypeError"
  by (induction v and xs and v rule: ToString_join_elements_element_string.induct)
    (auto split: sum.splits if_splits)

lemma template_string_throws: "template_string x = Inl e \<Longrightarrow> e = TypeError"
  by (cases x) (auto dest: ToString_throws)

lemma get_throws: "get x k = Inl e \<Longrightarrow> e = TypeError"
  by (cases "(x, k)" rule: get.cases) auto

lemma dedupeKey_throws: "dedupeKey p = Inl e \<Longrightarrow> e = TypeError"
  by (auto simp: dedupeKey_def split: sum.splits dest: template_string_throws get_throws)

subsection \<open>Rounding to a double\<close>

lemma nearest_even_error:
  assumes "0 < d"
  shows "\<bar>of_int (nearest_even n d) - (of_int n / of_int d :: rat)\<bar> \<le> 1 / 2"
proof -
  define q r where "q = n div d" and "r = n mod d"
  have n: "n = d * q + r" by (simp add: q_def r_def)
  have r: "0 \<le> r" "r < d" using assms by (simp_all add: r_def)
  have frac: "(of_int n / of_int d :: rat) = of_int q + of_int r / of_int d"
    using assms by (simp add: n field_simps)
  have d: "(0::rat) < of_int d" using assms by simp
  consider "2 * r < d" | "d < 2 * r" | "2 * r = d" by linarith
  then show ?thesis
  proof cases
    case 1
    then have "(of_int (2 * r) :: rat) < of_int d" by (simp only: of_int_less_iff)
    then have "(of_int r / of_int d :: rat) \<le> 1 / 2"
      using d by (simp add: field_simps)
    moreover have "(0::rat) \<le> of_int r / of_int d" using r d by simp
    ultimately show ?thesis using 1 by (simp add: nearest_even_def frac q_def[symmetric] r_def[symmetric])
  next
    case 2
    then have "(of_int d :: rat) < of_int (2 * r)" by (simp only: of_int_less_iff)
    then have "(1 / 2 :: rat) \<le> of_int r / of_int d"
      using d by (simp add: field_simps)
    moreover have "(of_int r / of_int d :: rat) \<le> 1" using r d by simp
    ultimately show ?thesis using 2 by (simp add: nearest_even_def frac q_def[symmetric] r_def[symmetric])
  next
    case 3
    from 3 have dr: "(of_int d :: rat) = 2 * of_int r"
      by (metis of_int_mult of_int_numeral)
    from 3 assms have rpos: "(0::rat) < of_int r" by simp
    have rd: "(of_int r / of_int d :: rat) = 1 / 2"
      unfolding dr using rpos by simp
    have half: "(of_int n / of_int d :: rat) = of_int q + 1 / 2"
      unfolding frac rd ..
    have "nearest_even n d = (if even q then q else q + 1)"
      using 3 by (simp add: nearest_even_def q_def[symmetric] r_def[symmetric])
    then show ?thesis by (simp add: half)
  qed
qed

lemma powi_pos: "(0::rat) < 2 powi e"
  by simp

lemma binade_bounds:
  assumes "0 < a" and "0 < b"
  shows "2 powi binade a b \<le> (of_int a / of_int b :: rat)"
    and "(of_int a / of_int b :: rat) < 2 powi (binade a b + 1)"
proof -
  define la lb where "la = bitlen a" and "lb = bitlen b"
  have la: "1 \<le> la" and lb: "1 \<le> lb"
    using assms by (auto simp: la_def lb_def bitlen_alt_def)
  from bitlen_bounds[OF assms(1)] have "2 ^ nat (la - 1) \<le> a" "a < 2 ^ nat la"
    by (simp_all add: la_def)
  then have "(of_int (2 ^ nat (la - 1)) :: rat) \<le> of_int a" "(of_int a :: rat) < of_int (2 ^ nat la)"
    by (simp_all only: of_int_le_iff of_int_less_iff)
  then have a: "(2 powi (la - 1) :: rat) \<le> of_int a" "(of_int a :: rat) < 2 powi la"
    using la by (simp_all add: power_int_def)
  from bitlen_bounds[OF assms(2)] have "2 ^ nat (lb - 1) \<le> b" "b < 2 ^ nat lb"
    by (simp_all add: lb_def)
  then have "(of_int (2 ^ nat (lb - 1)) :: rat) \<le> of_int b" "(of_int b :: rat) < of_int (2 ^ nat lb)"
    by (simp_all only: of_int_le_iff of_int_less_iff)
  then have b: "(2 powi (lb - 1) :: rat) \<le> of_int b" "(of_int b :: rat) < 2 powi lb"
    using lb by (simp_all add: power_int_def)
  have bpos: "(0::rat) < of_int b" and apos: "(0::rat) < of_int a" using assms by simp_all
  have upper: "(of_int a / of_int b :: rat) < 2 powi (la - lb + 1)"
  proof -
    have "(of_int a :: rat) < 2 powi la" by (rule a)
    also have "\<dots> = 2 powi (la - lb + 1) * 2 powi (lb - 1)"
      by (simp add: power_int_add[symmetric])
    also have "\<dots> \<le> 2 powi (la - lb + 1) * of_int b"
      using b(1) by (simp add: mult_left_mono)
    finally show ?thesis using bpos by (simp add: field_simps)
  qed
  have lower: "(2 powi (la - lb - 1) :: rat) < of_int a / of_int b"
  proof -
    have "2 powi (la - lb - 1) * (of_int b :: rat) < 2 powi (la - lb - 1) * 2 powi lb"
      using b(2) by (simp add: mult_strict_left_mono)
    also have "\<dots> = 2 powi (la - 1)"
      by (simp add: power_int_add[symmetric])
    also have "\<dots> \<le> of_int a" by (rule a)
    finally show ?thesis using bpos by (simp add: field_simps)
  qed
  have test: "(if 0 \<le> la - lb then b * 2 ^ nat (la - lb) \<le> a else b \<le> a * 2 ^ nat (lb - la))
      \<longleftrightarrow> (2 powi (la - lb) :: rat) \<le> of_int a / of_int b"
  proof (cases "0 \<le> la - lb")
    case True
    have "b * 2 ^ nat (la - lb) \<le> a \<longleftrightarrow> (of_int (b * 2 ^ nat (la - lb)) :: rat) \<le> of_int a"
      by (simp only: of_int_le_iff)
    also have "\<dots> \<longleftrightarrow> (2 powi (la - lb) :: rat) \<le> of_int a / of_int b"
      using True bpos by (simp add: power_int_def field_simps)
    finally show ?thesis using True by simp
  next
    case False
    have "b \<le> a * 2 ^ nat (lb - la) \<longleftrightarrow> (of_int b :: rat) \<le> of_int (a * 2 ^ nat (lb - la))"
      by (simp only: of_int_le_iff)
    also have "\<dots> \<longleftrightarrow> (2 powi (la - lb) :: rat) \<le> of_int a / of_int b"
      using False bpos by (simp add: power_int_def field_simps)
    finally show ?thesis using False by simp
  qed
  show "2 powi binade a b \<le> (of_int a / of_int b :: rat)"
    using test lower by (auto simp: binade_def la_def[symmetric] lb_def[symmetric])
  show "(of_int a / of_int b :: rat) < 2 powi (binade a b + 1)"
    using test upper by (auto simp: binade_def la_def[symmetric] lb_def[symmetric])
qed

lemma to_double_error:
  assumes "0 < a" and "0 < b"
  shows "\<bar>val (to_double a b) - of_int a / of_int b\<bar> \<le> (of_int a / of_int b) / 2 ^ 53"
    and "0 < fst (to_double a b)"
proof -
  define x :: rat where "x = of_int a / of_int b"
  define e where "e = binade a b - 52"
  define s :: rat where "s = 2 powi e"
  define M where "M = fst (to_double a b)"
  have xpos: "0 < x" using assms by (simp add: x_def)
  have spos: "0 < s" by (simp add: s_def)
  have snd_e: "snd (to_double a b) = e"
    using assms by (simp add: to_double_def e_def)
  have "2 powi binade a b \<le> x"
    unfolding x_def by (rule binade_bounds(1)[OF assms])
  also have "(2 powi binade a b :: rat) = 2 ^ 52 * s"
    by (simp add: s_def e_def power_int_diff)
  finally have big: "2 ^ 52 * s \<le> x" .
  have near: "\<bar>of_int M - x / s\<bar> \<le> 1 / 2"
  proof (cases "0 \<le> e")
    case True
    then have M: "M = nearest_even a (b * 2 ^ nat e)"
      using assms by (simp add: M_def to_double_def e_def)
    have "(of_int a / of_int (b * 2 ^ nat e) :: rat) = x / s"
      using True by (simp add: x_def s_def power_int_def)
    with nearest_even_error[of "b * 2 ^ nat e" a] assms(2) show ?thesis
      by (simp add: M)
  next
    case False
    then have M: "M = nearest_even (a * 2 ^ nat (- e)) b"
      using assms by (simp add: M_def to_double_def e_def)
    have "(of_int (a * 2 ^ nat (- e)) / of_int b :: rat) = x / s"
      using False by (simp add: x_def s_def power_int_def field_simps)
    with nearest_even_error[of b "a * 2 ^ nat (- e)"] assms(2) show ?thesis
      by (simp add: M)
  qed
  have v: "val (to_double a b) = of_int M * s"
    by (simp add: val_def M_def snd_e s_def)
  have "\<bar>of_int M * s - x\<bar> = s * \<bar>of_int M - x / s\<bar>"
    using spos by (simp add: abs_mult[symmetric] field_simps del: abs_mult abs_of_pos)
  also have "\<dots> \<le> s * (1 / 2)"
    using near spos by (simp add: mult_left_mono)
  also have "\<dots> \<le> x / 2 ^ 53"
    using big by (simp add: field_simps)
  finally show "\<bar>val (to_double a b) - of_int a / of_int b\<bar> \<le> (of_int a / of_int b) / 2 ^ 53"
    by (simp add: v x_def)
  have "2 ^ 52 \<le> x / s"
    using big spos by (simp add: field_simps)
  with near have "(2 ^ 52 - 1 / 2 :: rat) \<le> of_int M" by linarith
  moreover have "(1::rat) \<le> 2 ^ 52 - 1 / 2" by simp
  ultimately have "(0::rat) < of_int M" by linarith
  then show "0 < fst (to_double a b)" by (simp add: M_def)
qed

lemma val_pair: "val (m, e) = of_int m * 2 powi e"
  by (simp add: val_def)

lemma to_double_exact:
  assumes "0 < n" and "n < 2 ^ 53"
  shows "val (to_double n 1) = of_int n" and "0 < fst (to_double n 1)"
proof -
  define B where "B = binade n 1"
  have low: "(2 powi B :: rat) \<le> of_int n"
    using binade_bounds(1)[of n 1] assms(1) by (simp add: B_def)
  have "B \<le> 52"
  proof (rule ccontr)
    assume "\<not> B \<le> 52"
    then have "(2 powi 53 :: rat) \<le> 2 powi B"
      by (intro power_int_increasing) simp_all
    with low have "(2 ^ 53 :: rat) \<le> of_int n" by simp
    then have "(of_int (2 ^ 53) :: rat) \<le> of_int n" by simp
    then have "2 ^ 53 \<le> n" by (simp only: of_int_le_iff)
    with assms(2) show False by simp
  qed
  then have td: "to_double n 1 = (n * 2 ^ nat (52 - B), B - 52)"
    using assms(1) by (auto simp: to_double_def B_def[symmetric] nearest_even_def)
  have "(of_int (n * 2 ^ nat (52 - B)) :: rat) * 2 powi (B - 52) = of_int n * (2 powi (52 - B) * 2 powi (B - 52))"
    using \<open>B \<le> 52\<close> by (simp add: power_int_def)
  also have "\<dots> = of_int n"
    by (simp add: power_int_add[symmetric])
  finally show "val (to_double n 1) = of_int n"
    by (simp add: td val_pair)
  show "0 < fst (to_double n 1)"
    using assms(1) by (simp add: td)
qed

lemma js_div_error:
  assumes "0 < fst x" and "0 < fst y"
  shows "\<bar>val (js_div x y) - val x / val y\<bar> \<le> (val x / val y) / 2 ^ 53"
    and "0 < fst (js_div x y)"
proof -
  define P :: rat where "P = 2 powi (snd x - snd y)"
  define r :: rat where "r = of_int (fst x) / of_int (fst y)"
  have Ppos: "0 < P" by (simp add: P_def)
  have v: "val (js_div x y) = val (to_double (fst x) (fst y)) * P"
    by (simp add: js_div_def val_def P_def power_int_add power_int_diff field_simps)
  have w: "val x / val y = r * P"
    by (simp add: val_def P_def r_def power_int_diff)
  have "\<bar>val (to_double (fst x) (fst y)) * P - r * P\<bar> = \<bar>val (to_double (fst x) (fst y)) - r\<bar> * P"
    using Ppos by (simp add: left_diff_distrib[symmetric] abs_mult)
  also have "\<dots> \<le> (r / 2 ^ 53) * P"
    using to_double_error(1)[OF assms] Ppos unfolding r_def by (intro mult_right_mono) simp_all
  finally show "\<bar>val (js_div x y) - val x / val y\<bar> \<le> (val x / val y) / 2 ^ 53"
    by (simp add: v w)
  show "0 < fst (js_div x y)"
    using to_double_error(2)[OF assms] by (simp add: js_div_def)
qed

lemma js_mul_error:
  assumes "0 < fst x" and "0 < fst y"
  shows "\<bar>val (js_mul x y) - val x * val y\<bar> \<le> (val x * val y) / 2 ^ 53"
    and "0 < fst (js_mul x y)"
proof -
  define P :: rat where "P = 2 powi (snd x + snd y)"
  define r :: rat where "r = of_int (fst x * fst y) / of_int 1"
  have Ppos: "0 < P" by (simp add: P_def)
  have pos: "0 < fst x * fst y" using assms by simp
  have v: "val (js_mul x y) = val (to_double (fst x * fst y) 1) * P"
    by (simp add: js_mul_def val_def P_def power_int_add field_simps)
  have w: "val x * val y = r * P"
    by (simp add: val_def P_def r_def power_int_add)
  have "\<bar>val (to_double (fst x * fst y) 1) * P - r * P\<bar> = \<bar>val (to_double (fst x * fst y) 1) - r\<bar> * P"
    using Ppos by (simp add: left_diff_distrib[symmetric] abs_mult)
  also have "\<dots> \<le> (r / 2 ^ 53) * P"
    using to_double_error(1)[OF pos, of 1] Ppos unfolding r_def by (intro mult_right_mono) simp_all
  finally show "\<bar>val (js_mul x y) - val x * val y\<bar> \<le> (val x * val y) / 2 ^ 53"
    by (simp add: v w)
  show "0 < fst (js_mul x y)"
    using to_double_error(2)[OF pos, of 1] by (simp add: js_mul_def)
qed

lemma Math_round_floor: "Math_round x = (\<lfloor>val x + 1 / 2\<rfloor>, 0)"
proof (cases "0 \<le> snd x")
  case True
  then have "val x = of_int (fst x * 2 ^ nat (snd x))"
    by (simp add: val_def power_int_def)
  then have "\<lfloor>val x + 1 / 2\<rfloor> = fst x * 2 ^ nat (snd x)"
    by (simp only:) linarith
  with True show ?thesis by (simp add: Math_round_def)
next
  case False
  define s where "s = nat (- snd x)"
  have "val x + 1 / 2 = of_int (2 * fst x + 2 ^ s) / of_int (2 * 2 ^ s)"
    using False by (simp add: val_def power_int_def s_def field_simps)
  then have "\<lfloor>val x + 1 / 2\<rfloor> = (2 * fst x + 2 ^ s) div (2 * 2 ^ s)"
    by (simp only: floor_divide_of_int_eq)
  with False show ?thesis by (simp add: Math_round_def s_def)
qed

lemma nearest_integer_stable:
  fixes v :: rat
  assumes "0 < t" and "\<bar>v - of_int n / of_int t\<bar> < 1 / (2 * of_int t)"
  shows "\<bar>of_int \<lfloor>v + 1 / 2\<rfloor> - (of_int n / of_int t :: rat)\<bar> \<le> 1 / 2"
proof -
  define k where "k = \<lfloor>v + 1 / 2\<rfloor>"
  define y :: rat where "y = of_int n / of_int t"
  have tpos: "(0::rat) < of_int t" using assms(1) by simp
  have k: "of_int k \<le> v + 1 / 2" "v + 1 / 2 < of_int k + 1"
    unfolding k_def by linarith+
  have close: "v - y < 1 / (2 * of_int t)" "y - v < 1 / (2 * of_int t)"
    using assms(2) unfolding y_def by linarith+
  have step: "\<bar>d\<bar> \<le> t" if "\<bar>(of_int d :: rat)\<bar> < of_int t + 1" for d :: int
  proof -
    from that have "(of_int \<bar>d\<bar> :: rat) < of_int (t + 1)" by simp
    then have "\<bar>d\<bar> < t + 1" by (simp only: of_int_less_iff)
    then show ?thesis by simp
  qed
  have scaled: "2 * of_int t * (of_int k - y) = (of_int (2 * k * t - 2 * n) :: rat)"
    using tpos by (simp add: y_def field_simps)
  have "\<bar>(of_int (2 * k * t - 2 * n) :: rat)\<bar> = \<bar>2 * of_int t * (of_int k - y)\<bar>"
    by (simp only: scaled)
  also have "\<dots> = 2 * of_int t * \<bar>of_int k - y\<bar>"
    using tpos by (simp add: abs_mult)
  finally have abs_scaled: "\<bar>(of_int (2 * k * t - 2 * n) :: rat)\<bar> = 2 * of_int t * \<bar>of_int k - y\<bar>" .
  have "\<bar>of_int k - y\<bar> < 1 / 2 + 1 / (2 * of_int t)"
    using k close by linarith
  then have "2 * of_int t * \<bar>of_int k - y\<bar> < 2 * of_int t * (1 / 2 + 1 / (2 * of_int t))"
    using tpos by (intro mult_strict_left_mono) simp_all
  also have "\<dots> = of_int t + 1"
    using tpos by (simp add: field_simps)
  finally have "\<bar>(of_int (2 * k * t - 2 * n) :: rat)\<bar> < of_int t + 1"
    by (simp only: abs_scaled)
  from step[OF this] have "(of_int \<bar>2 * k * t - 2 * n\<bar> :: rat) \<le> of_int t"
    by (simp only: of_int_le_iff)
  then have "\<bar>(of_int (2 * k * t - 2 * n) :: rat)\<bar> \<le> of_int t"
    by simp
  then have "2 * of_int t * \<bar>of_int k - y\<bar> \<le> of_int t"
    by (simp only: abs_scaled)
  then have "\<bar>of_int k - y\<bar> \<le> 1 / 2"
    using tpos by (simp add: field_simps)
  then show ?thesis by (simp add: k_def y_def)
qed

lemma scaled_ratio_error:
  assumes "0 < c" and "c < 2 ^ 39" and "0 < t" and "t < 2 ^ 53"
  shows "\<bar>val (js_mul (js_mul (js_div (to_double c 1) (to_double t 1)) (100, 0)) (10, 0))
           - of_int (1000 * c) / of_int t\<bar> < 1 / (2 * of_int t)"
proof -
  define q :: rat where "q = of_int c / of_int t"
  define eps :: rat where "eps = 1 / 2 ^ 53"
  define x1 where "x1 = js_div (to_double c 1) (to_double t 1)"
  define x2 where "x2 = js_mul x1 (100, 0)"
  define x3 where "x3 = js_mul x2 (10, 0)"
  have c53: "c < 2 ^ 53" using assms(2) by simp
  have tpos: "(0::rat) < of_int t" and cpos: "(0::rat) < of_int c" using assms by simp_all
  have qpos: "0 < q" using tpos cpos by (simp add: q_def)
  have eps: "0 \<le> eps" "eps \<le> 1" by (simp_all add: eps_def)
  have vc: "val (to_double c 1) = of_int c" and pc: "0 < fst (to_double c 1)"
    using to_double_exact[OF assms(1) c53] by simp_all
  have vt: "val (to_double t 1) = of_int t" and pt: "0 < fst (to_double t 1)"
    using to_double_exact[OF assms(3,4)] by simp_all
  have e1: "\<bar>val x1 - q\<bar> \<le> q * eps" and p1: "0 < fst x1"
    using js_div_error[OF pc pt] by (simp_all add: x1_def vc vt q_def eps_def)
  have hundred: "val (100, 0) = 100" and ten: "val (10, 0) = 10"
    by (simp_all add: val_pair)
  have e2: "\<bar>val x2 - 100 * val x1\<bar> \<le> 100 * (val x1 * eps)" and p2: "0 < fst x2"
    using js_mul_error[OF p1, of "(100, 0)"] by (simp_all add: x2_def hundred eps_def mult.commute)
  have e3: "\<bar>val x3 - 10 * val x2\<bar> \<le> 10 * (val x2 * eps)"
    using js_mul_error[OF p2, of "(10, 0)"] by (simp_all add: x3_def ten eps_def mult.commute)
  have qe: "q * eps \<le> q" using qpos eps by (simp add: mult_left_le)
  have b1: "val x1 \<le> 2 * q" using e1 qe by linarith
  have v1pos: "0 \<le> val x1" using p1 by (simp add: val_def)
  have "val x1 * eps \<le> val x1" using v1pos eps by (simp add: mult_left_le)
  with e2 b1 have b2: "val x2 \<le> 400 * q" by linarith
  have m1: "val x1 * eps \<le> 2 * (q * eps)"
    using b1 eps(1) mult_right_mono[of "val x1" "2 * q" eps] by simp
  have m2: "val x2 * eps \<le> 400 * (q * eps)"
    using b2 eps(1) mult_right_mono[of "val x2" "400 * q" eps] by simp
  have "\<bar>val x3 - 1000 * q\<bar> \<le> 7000 * (q * eps)"
    using e1 e2 e3 m1 m2 by linarith
  also have "7000 * (q * eps) = of_int (14000 * c) / (2 ^ 53 * (2 * of_int t))"
    using tpos by (simp add: q_def eps_def field_simps)
  also have "\<dots> < 1 / (2 * of_int t)"
  proof -
    have "14000 * c < 2 ^ 53" using assms(2) by simp
    then have "(of_int (14000 * c) :: rat) < of_int (2 ^ 53)" by (simp only: of_int_less_iff)
    then have "(of_int (14000 * c) :: rat) / 2 ^ 53 < 1" by simp
    then have "(of_int (14000 * c) :: rat) / 2 ^ 53 / (2 * of_int t) < 1 / (2 * of_int t)"
      using tpos by (intro divide_strict_right_mono) simp_all
    then show ?thesis by (simp add: field_simps)
  qed
  finally show ?thesis
    by (simp add: x3_def x2_def x1_def q_def)
qed

lemma rate_percent_zero_part:
  assumes "0 < t"
  shows "rate_percent 0 t = Some (0, 0)"
  using assms by (simp add: rate_percent_def round1_def js_mul_def js_div_def to_double_def Math_round_def)

lemma rate_percent_nearest_tenth:
  assumes "0 < whole" and "part < 2 ^ 39" and "whole < 2 ^ 53"
  shows "\<exists>k. rate_percent part whole = Some (js_div (k, 0) (10, 0))
           \<and> \<bar>of_int k - (of_nat (1000 * part) / of_nat whole :: rat)\<bar> \<le> 1 / 2"
proof (cases "part = 0")
  case True
  have "rate_percent 0 whole = Some (js_div (0, 0) (10, 0))"
    using assms(1) by (simp add: rate_percent_zero_part js_div_def to_double_def)
  then show ?thesis using True by auto
next
  case False
  define x3 where
    "x3 = js_mul (js_mul (js_div (to_double (int part) 1) (to_double (int whole) 1)) (100, 0)) (10, 0)"
  define k where "k = \<lfloor>val x3 + 1 / 2\<rfloor>"
  have c: "0 < int part" "int part < 2 ^ 39" using False assms(2) by simp_all
  have t: "0 < int whole" "int whole < 2 ^ 53" using assms(1,3) by simp_all
  have "\<bar>val x3 - of_int (1000 * int part) / of_int (int whole)\<bar> < 1 / (2 * of_int (int whole))"
    unfolding x3_def by (rule scaled_ratio_error[OF c t])
  from nearest_integer_stable[OF t(1) this]
  have "\<bar>of_int k - (of_int (1000 * int part) / of_int (int whole) :: rat)\<bar> \<le> 1 / 2"
    by (simp add: k_def)
  then have near: "\<bar>of_int k - (of_nat (1000 * part) / of_nat whole :: rat)\<bar> \<le> 1 / 2"
    by simp
  have "rate_percent part whole = Some (js_div (k, 0) (10, 0))"
    using assms(1) by (simp add: rate_percent_def round1_def Math_round_floor x3_def k_def)
  with near show ?thesis by blast
qed

subsection \<open>Rates of the report\<close>

lemmas number_eval = rate_percent_def rate_percent_part0_def round1_def js_mul_def js_div_def
  to_double_def Math_round_def binade_def nearest_even_def compute_bitlen

lemma rate_one_of_three: "rate_percent 1 3 = Some (4686558362232422, - 47)"
  by (simp add: number_eval)

lemma literal_33_3: "to_double 333 10 = (4686558362232422, - 47)"
  by (simp add: number_eval)

lemma rate_one_of_one: "rate_percent 1 1 = Some (7036874417766400, - 46)"
  by (simp add: number_eval)

lemma literal_100: "to_double 100 1 = (7036874417766400, - 46)"
  by (simp add: number_eval)

lemma rate_23_of_80:
  "rate_percent 23 80 = Some (to_double 287 10)"
  "rate_percent_part0 23 80 = Some (to_double 288 10)"
  "to_double 287 10 = (8078331831595827, - 48)"
  "to_double 288 10 = (8106479329266893, - 48)"
  by (simp_all add: number_eval)

lemma rate_percent_None_iff: "rate_percent part whole = None \<longleftrightarrow> whole = 0"
  by (simp add: rate_percent_def)

lemma tenth_value:
  assumes "0 \<le> k"
  shows "\<bar>val (js_div (k, 0) (10, 0)) - of_int k / 10\<bar> \<le> (of_int k / 10) / 2 ^ 53"
proof (cases "k = 0")
  case True
  then show ?thesis by (simp add: js_div_def to_double_def val_def)
next
  case False
  with assms have "0 < fst (k, 0 :: int)" by simp
  from js_div_error(1)[OF this, of "(10, 0)"] show ?thesis
    by (simp add: val_pair)
qed

lemma handleResults_throws: "handleResults now d = Inl ExecError"
  by (simp add: handleResults_def ensureSchema_throws)

lemma handleResults_part0_rates:
  "approval_rate_percent (ballot (snd (handleResults_part0 now d))) =
     rate_percent_part0 (counter d ''approve_interim_yes'') (counter d ''total_submissions_counted'')"
  "prefer_open_rate_percent (ballot (snd (handleResults_part0 now d))) =
     rate_percent_part0 (counter d ''prefer_open_contest_yes'') (counter d ''total_submissions_counted'')"
  "total_submissions_counted (ballot (snd (handleResults_part0 now d))) =
     counter d ''total_submissions_counted''"
  "regional_balance (snd (handleResults_part0 now d)) =
     map (\<lambda>(r, t, a). (r, t, rate_percent_part0 a t)) (region_counts d)"
  by (simp_all add: handleResults_part0_def Let_def)

section \<open>Claims\<close>

text \<open>
  C5. A request whose body does not parse is answered \<^verbatim>\<open>{ok: false, error: "BAD_JSON"}\<close>
  and a payload for which the validator returns errors is answered
  \<^verbatim>\<open>{ok: false, error: "VALIDATION_FAILED", details}\<close> with the whole list; in both cases
  the database is returned as it was. This holds for both entry points, each with its own
  validator.
\<close>

theorem rejection_changes_nothing:
  "handleSubmit now d None = (Inr (400, Rejected ''BAD_JSON'' None), d)
   \<and> handleSubmit_part0 now d None = (Inr (400, Rejected ''BAD_JSON'' None), d)
   \<and> (validatePayload p \<noteq> [] \<longrightarrow>
        handleSubmit now d (Some p) =
          (Inr (422, Rejected ''VALIDATION_FAILED'' (Some (validatePayload p))), d))
   \<and> (validate p \<noteq> [] \<longrightarrow>
        handleSubmit_part0 now d (Some p) =
          (Inr (422, Rejected ''VALIDATION_FAILED'' (Some (validate p))), d))"
  by (simp add: handleSubmit_def handleSubmit_part0_def)

text \<open>
  The payload of the example without \<^verbatim>\<open>context.region\<close>, sent to the database that
  already holds one ballot.
\<close>

theorem rejection_changes_nothing_witness:
  "validatePayload (JObj [(''schema_version'', JStr ''1''), (''created_utc'', JStr ''t''),
       (''voter_id'', JStr ''v2''), (''context'', JObj [(''country_or_territory'', JStr ''US'')])])
     = [''Missing context.region'']
   \<and> handleSubmit ''2026-01-06T08:00:00.000Z'' after_v1
        (Some (JObj [(''schema_version'', JStr ''1''), (''created_utc'', JStr ''t''),
           (''voter_id'', JStr ''v2''), (''context'', JObj [(''country_or_territory'', JStr ''US'')])]))
     = (Inr (422, Rejected ''VALIDATION_FAILED'' (Some [''Missing context.region''])), after_v1)
   \<and> handleSubmit_part0 ''2026-01-06T08:00:00.000Z'' after_v1
        (Some (JObj [(''schema_version'', JStr ''1''), (''created_utc'', JStr ''t''),
           (''voter_id'', JStr ''v2''), (''context'', JObj [(''country_or_territory'', JStr ''US'')])]))
     = (Inr (422, Rejected ''VALIDATION_FAILED'' (Some [''Missing context.region''])), after_v1)"
proof -
  let ?p = "JObj [(''schema_version'', JStr ''1''), (''created_utc'', JStr ''t''),
       (''voter_id'', JStr ''v2''), (''context'', JObj [(''country_or_territory'', JStr ''US'')])]"
  have v: "validatePayload ?p = [''Missing context.region'']"
    by (simp add: validatePayload_def)
  have w: "validate ?p = [''Missing context.region'']"
    by (simp add: validate_def)
  from v w rejection_changes_nothing[of "''2026-01-06T08:00:00.000Z''" after_v1 ?p]
  show ?thesis by simp
qed

text \<open>
  C3. A payload that passes validation and whose dedupe key is held by a stored row
  (every row written by the handlers has a non-empty receipt id) is to be answered with
  status 200, \<^verbatim>\<open>ok: true\<close>, \<^verbatim>\<open>counted: false\<close>, the receipt id of that row and the
  message \<^verbatim>\<open>Duplicate detected (already counted).\<close>, with nothing written. The second
  entry point does so and returns the database unchanged: no new row, no counter and no
  region row touched. \<^verbatim>\<open>handleSubmit\<close> of \<^verbatim>\<open>worker.js\<close> awaits \<^verbatim>\<open>ensureSchema\<close>
  between the fingerprint and the \<^verbatim>\<open>SELECT\<close>; \<^verbatim>\<open>DB.exec\<close> refuses the script, so
  the handler throws before it looks for the row and the duplicate is not answered
  \<^verbatim>\<open>counted: false\<close>. It writes nothing either.
\<close>

theorem duplicate_answered_by_second_entry_point_only:
  assumes "validatePayload p = []" and "dedupeKey p = Inr key"
    and "find (\<lambda>r. dedupe_key r = key) (submissions d) = Some row"
    and "receipt_id row \<noteq> []"
  shows "handleSubmit_part0 now d (Some p) =
           (Inr (200, Accepted (receipt_id row) False ''Duplicate detected (already counted).''), d)
         \<and> ok (Accepted (receipt_id row) False ''Duplicate detected (already counted).'')
         \<and> handleSubmit now d (Some p) = (Inl ExecError, d)"
proof -
  from assms(1) have "validate p = []"
    by (simp add: validatePayload_empty_iff)
  from handleSubmit_part0_duplicate[OF this assms(2-4)] handleSubmit_throws[OF assms(1,2)]
  show ?thesis by simp
qed

text \<open>The ballot of \<^verbatim>\<open>v1\<close> sent again to the database that holds it.\<close>

theorem duplicate_answered_by_second_entry_point_only_witness:
  "validatePayload (example_ballot ''v1'' ''CA'' True False) = []
   \<and> dedupeKey (example_ballot ''v1'' ''CA'' True False) =
        Inr ''3b90893ec3071c364f721426d543910942e4b633446521ab133337404f8f1885''
   \<and> find (\<lambda>r. dedupe_key r = ''3b90893ec3071c364f721426d543910942e4b633446521ab133337404f8f1885'')
        (submissions after_v1) = Some (hd (submissions after_v1))
   \<and> receipt_id (hd (submissions after_v1)) = ''r_5080479f''
   \<and> handleSubmit_part0 ''2026-01-06T08:00:00.000Z'' after_v1 (Some (example_ballot ''v1'' ''CA'' True False)) =
        (Inr (200, Accepted ''r_5080479f'' False ''Duplicate detected (already counted).''), after_v1)
   \<and> handleSubmit ''2026-01-06T08:00:00.000Z'' after_v1 (Some (example_ballot ''v1'' ''CA'' True False)) =
        (Inl ExecError, after_v1)"
proof -
  let ?k = "''3b90893ec3071c364f721426d543910942e4b633446521ab133337404f8f1885''"
  have v: "validatePayload (example_ballot ''v1'' ''CA'' True False) = []"
    by (simp add: ballot_valid)
  have k: "dedupeKey (example_ballot ''v1'' ''CA'' True False) = Inr ?k"
    by (simp add: ballot_key key_v1)
  have f: "find (\<lambda>r. dedupe_key r = ?k) (submissions after_v1) = Some (hd (submissions after_v1))"
    by (simp add: after_v1_def)
  have r: "receipt_id (hd (submissions after_v1)) = ''r_5080479f''"
    by (simp add: after_v1_def)
  have n: "receipt_id (hd (submissions after_v1)) \<noteq> []"
    by (simp add: r)
  from duplicate_answered_by_second_entry_point_only[OF v k f n, of "''2026-01-06T08:00:00.000Z''"]
    v k f r
  show ?thesis by simp
qed

text \<open>
  C2. After any sequence of requests handled by the second entry point from the empty
  database (accepted, duplicate, rejected or failing, in any order), the counter
  \<^verbatim>\<open>both_selected\<close> plus the counter \<^verbatim>\<open>neither_selected\<close> plus the number of stored
  submissions with exactly one of the two ballot fields true equals
  \<^verbatim>\<open>total_submissions_counted\<close>; the \<^verbatim>\<open>total\<close> columns of \<^verbatim>\<open>region_counts\<close> sum
  to \<^verbatim>\<open>total_submissions_counted\<close>; and \<^verbatim>\<open>total_submissions_counted\<close> is the number
  of distinct dedupe keys stored. The same three equations hold after any sequence of
  requests handled by \<^verbatim>\<open>worker.js\<close>, whose handler throws or rejects and leaves the
  database as it was. \<^verbatim>\<open>updateAggregates\<close> of \<^verbatim>\<open>worker.js\<close>, with its two statements
  on \<^verbatim>\<open>region_counts\<close>, is the same ledger update as \<^verbatim>\<open>updateAggregates\<close> of the
  second entry point with its single statement.
\<close>

theorem ledger_consistent_after_requests:
  "counter (submit_all handleSubmit_part0 empty_db rs) ''both_selected''
     + counter (submit_all handleSubmit_part0 empty_db rs) ''neither_selected''
     + length (filter selects_exactly_one (submissions (submit_all handleSubmit_part0 empty_db rs)))
     = counter (submit_all handleSubmit_part0 empty_db rs) ''total_submissions_counted''
   \<and> sum_list (map region_total (region_counts (submit_all handleSubmit_part0 empty_db rs)))
     = counter (submit_all handleSubmit_part0 empty_db rs) ''total_submissions_counted''
   \<and> counter (submit_all handleSubmit_part0 empty_db rs) ''total_submissions_counted''
     = card (set (map dedupe_key (submissions (submit_all handleSubmit_part0 empty_db rs))))
   \<and> counter (submit_all handleSubmit empty_db rs) ''both_selected''
     + counter (submit_all handleSubmit empty_db rs) ''neither_selected''
     + length (filter selects_exactly_one (submissions (submit_all handleSubmit empty_db rs)))
     = counter (submit_all handleSubmit empty_db rs) ''total_submissions_counted''
   \<and> sum_list (map region_total (region_counts (submit_all handleSubmit empty_db rs)))
     = counter (submit_all handleSubmit empty_db rs) ''total_submissions_counted''
   \<and> counter (submit_all handleSubmit empty_db rs) ''total_submissions_counted''
     = card (set (map dedupe_key (submissions (submit_all handleSubmit empty_db rs))))
   \<and> updateAggregates d p = updateAggregates_part0 d p"
proof -
  let ?d = "submit_all handleSubmit_part0 empty_db rs"
  have inv: "ledger_inv ?d"
    by (rule ledger_inv_submit_all_part0[OF ledger_inv_empty])
  have "card (set (map dedupe_key (submissions ?d))) = length (submissions ?d)"
    using inv distinct_card[of "map dedupe_key (submissions ?d)"] by (simp add: ledger_inv_def)
  with inv selection_partition[of "submissions ?d"]
  have second: "counter ?d ''both_selected'' + counter ?d ''neither_selected''
       + length (filter selects_exactly_one (submissions ?d))
       = counter ?d ''total_submissions_counted''
     \<and> sum_list (map region_total (region_counts ?d)) = counter ?d ''total_submissions_counted''
     \<and> counter ?d ''total_submissions_counted'' = card (set (map dedupe_key (submissions ?d)))"
    by (simp add: ledger_inv_def)
  have first: "submit_all handleSubmit empty_db rs = empty_db"
    by (rule submit_all_handleSubmit)
  have zero: "counter empty_db k = 0" for k
    by (simp add: counter_def empty_db_def)
  have none: "submissions empty_db = []" "region_counts empty_db = []"
    by (simp_all add: empty_db_def)
  from second show ?thesis
    by (simp add: first zero none updateAggregates_same)
qed

text \<open>
  Three requests on the empty database: the ballot of \<^verbatim>\<open>v1\<close>, the same ballot again,
  and a body that does not parse.
\<close>

theorem ledger_consistent_after_requests_witness:
  "submit_all handleSubmit_part0 empty_db
     [(''2026-01-05T12:00:01.000Z'', Some (example_ballot ''v1'' ''CA'' True False)),
      (''2026-01-05T12:00:02.000Z'', Some (example_ballot ''v1'' ''CA'' True False)),
      (''2026-01-05T12:00:03.000Z'', None)] = after_v1
   \<and> counter after_v1 ''both_selected'' + counter after_v1 ''neither_selected''
       + length (filter selects_exactly_one (submissions after_v1)) = 1
   \<and> counter after_v1 ''total_submissions_counted'' = 1
   \<and> sum_list (map region_total (region_counts after_v1)) = 1
   \<and> card (set (map dedupe_key (submissions after_v1))) = 1
   \<and> submit_all handleSubmit empty_db
     [(''2026-01-05T12:00:01.000Z'', Some (example_ballot ''v1'' ''CA'' True False)),
      (''2026-01-05T12:00:02.000Z'', Some (example_ballot ''v1'' ''CA'' True False)),
      (''2026-01-05T12:00:03.000Z'', None)] = empty_db
   \<and> counter empty_db ''total_submissions_counted'' = card (set (map dedupe_key (submissions empty_db)))"
proof -
  let ?rs = "[(''2026-01-05T12:00:01.000Z'', Some (example_ballot ''v1'' ''CA'' True False)),
      (''2026-01-05T12:00:02.000Z'', Some (example_ballot ''v1'' ''CA'' True False)),
      (''2026-01-05T12:00:03.000Z'', None)]"
  have dup: "handleSubmit_part0 ''2026-01-05T12:00:02.000Z'' after_v1 (Some (example_ballot ''v1'' ''CA'' True False)) =
      (Inr (200, Accepted ''r_5080479f'' False ''Duplicate detected (already counted).''), after_v1)"
    using handleSubmit_part0_duplicate[of "example_ballot ''v1'' ''CA'' True False"
        "''3b90893ec3071c364f721426d543910942e4b633446521ab133337404f8f1885''" after_v1
        "hd (submissions after_v1)" "''2026-01-05T12:00:02.000Z''"]
    by (simp add: ballot_valid_part0 ballot_key key_v1 after_v1_def)
  have bad: "handleSubmit_part0 ''2026-01-05T12:00:03.000Z'' after_v1 None =
      (Inr (400, Rejected ''BAD_JSON'' None), after_v1)"
    by (simp add: handleSubmit_part0_def)
  have run: "submit_all handleSubmit_part0 empty_db ?rs = after_v1"
    by (simp add: first_ballot_v1 dup bad)
  have run': "submit_all handleSubmit empty_db ?rs = empty_db"
    by (simp add: handleSubmit_state)
  have one: "counter after_v1 ''total_submissions_counted'' = 1"
    by (simp add: counter_def after_v1_def)
  from ledger_consistent_after_requests[of ?rs] run run' one show ?thesis
    by simp
qed

text \<open>
  C1. Submitting one well-formed payload N times is meant to store one row, count once
  and answer \<^verbatim>\<open>counted: true\<close> first and \<^verbatim>\<open>counted: false\<close> afterwards. The
  receipt id keeps 8 hexadecimal digits of a digest and is the primary key of
  \<^verbatim>\<open>submissions\<close>, so two voters can share one. Voters \<^verbatim>\<open>v13818\<close> and
  \<^verbatim>\<open>v146467\<close> both get \<^verbatim>\<open>r_dbf3c1dc\<close>: after the second entry point has counted the
  ballot of the first on the empty database, the well-formed ballot of the second, whose
  dedupe key is not stored, is refused by the \<^verbatim>\<open>INSERT\<close> every time it is sent. The
  handler throws, no row is stored and nothing is counted. The \<^verbatim>\<open>INSERT\<close> of
  \<^verbatim>\<open>worker.js\<close> (lines 110 to 126) is refused in the same way on that database, and
  its handler throws still earlier, in \<^verbatim>\<open>ensureSchema\<close>: it answers no submission
  \<^verbatim>\<open>counted: true\<close> at all.
\<close>

theorem receipt_collision_refuses_ballot:
  "handleSubmit_part0 ''2026-01-05T12:00:01.000Z'' empty_db (Some (example_ballot ''v13818'' ''CA'' True False)) =
     (Inr (200, Accepted ''r_dbf3c1dc'' True ''Submission received and counted.''), after_v13818)
   \<and> validatePayload (example_ballot ''v146467'' ''NY'' False True) = []
   \<and> validate (example_ballot ''v146467'' ''NY'' False True) = []
   \<and> dedupeKey (example_ballot ''v146467'' ''NY'' False True) =
       Inr ''b01fcb2230d8a41685e72e49228c3f105de27b59cc5f1eea3c605aa4d2875481''
   \<and> select_receipt_id after_v13818
       ''b01fcb2230d8a41685e72e49228c3f105de27b59cc5f1eea3c605aa4d2875481'' = None
   \<and> receiptId ''b01fcb2230d8a41685e72e49228c3f105de27b59cc5f1eea3c605aa4d2875481'' = ''r_dbf3c1dc''
   \<and> resubmit handleSubmit_part0 after_v13818 (example_ballot ''v146467'' ''NY'' False True)
       [''2026-01-06T09:00:00.000Z'', ''2026-01-07T09:00:00.000Z''] =
       ([Inl UniqueConstraintFailed, Inl UniqueConstraintFailed], after_v13818)
   \<and> store_and_count ''2026-01-06T09:00:00.000Z'' after_v13818 (example_ballot ''v146467'' ''NY'' False True)
       ''b01fcb2230d8a41685e72e49228c3f105de27b59cc5f1eea3c605aa4d2875481'' =
       (Inl UniqueConstraintFailed, after_v13818)
   \<and> resubmit handleSubmit after_v13818 (example_ballot ''v146467'' ''NY'' False True)
       [''2026-01-06T09:00:00.000Z'', ''2026-01-07T09:00:00.000Z''] =
       ([Inl ExecError, Inl ExecError], after_v13818)
   \<and> resubmit handleSubmit empty_db (example_ballot ''v13818'' ''CA'' True False)
       [''2026-01-05T12:00:01.000Z'', ''2026-01-06T09:00:00.000Z''] =
       ([Inl ExecError, Inl ExecError], empty_db)"
proof -
  let ?p = "example_ballot ''v13818'' ''CA'' True False"
  let ?q = "example_ballot ''v146467'' ''NY'' False True"
  let ?k = "''b01fcb2230d8a41685e72e49228c3f105de27b59cc5f1eea3c605aa4d2875481''"
  have v: "validatePayload ?q = []" and w: "validate ?q = []"
    by (simp_all add: ballot_valid ballot_valid_part0)
  have k: "dedupeKey ?q = Inr ?k"
    by (simp add: ballot_key key_v146467)
  have s: "select_receipt_id after_v13818 ?k = None"
    by (simp add: select_receipt_id_def after_v13818_def)
  have r: "receiptId ?k = ''r_dbf3c1dc''"
    by (simp add: receiptId_def receipt_v146467)
  have refused: "handleSubmit_part0 now after_v13818 (Some ?q) = (Inl UniqueConstraintFailed, after_v13818)"
    for now
    using w k s r
    by (simp add: handleSubmit_part0_def store_and_count_part0_def
        insert_submission_def after_v13818_def)
  have "store_and_count_part0 ''2026-01-06T09:00:00.000Z'' after_v13818 ?q ?k =
      (Inl UniqueConstraintFailed, after_v13818)"
    using r by (simp add: store_and_count_part0_def insert_submission_def after_v13818_def)
  then have insert: "store_and_count ''2026-01-06T09:00:00.000Z'' after_v13818 ?q ?k =
      (Inl UniqueConstraintFailed, after_v13818)"
    by (simp add: store_and_count_same[OF v])
  have thrown: "resubmit handleSubmit after_v13818 ?q
       [''2026-01-06T09:00:00.000Z'', ''2026-01-07T09:00:00.000Z''] =
       ([Inl ExecError, Inl ExecError], after_v13818)"
    by (simp add: handleSubmit_throws[OF v k])
  have thrown': "resubmit handleSubmit empty_db ?p
       [''2026-01-05T12:00:01.000Z'', ''2026-01-06T09:00:00.000Z''] =
       ([Inl ExecError, Inl ExecError], empty_db)"
    by (simp add: handleSubmit_throws[of ?p "sha256 (''v13818'' @ ''|1|2026-01-03_to_2026-02-02'')"]
        ballot_valid ballot_key)
  from v w k s r insert thrown thrown' show ?thesis
    by (simp add: first_ballot_v13818 refused)
qed

text \<open>The two responses to voter \<^verbatim>\<open>v146467\<close>, read off the evaluation above.\<close>

theorem receipt_collision_refuses_ballot_witness:
  "fst (resubmit handleSubmit_part0 after_v13818 (example_ballot ''v146467'' ''NY'' False True)
          [''2026-01-06T09:00:00.000Z'', ''2026-01-07T09:00:00.000Z'']) =
     [Inl UniqueConstraintFailed, Inl UniqueConstraintFailed]
   \<and> submissions (snd (resubmit handleSubmit_part0 after_v13818 (example_ballot ''v146467'' ''NY'' False True)
          [''2026-01-06T09:00:00.000Z'', ''2026-01-07T09:00:00.000Z''])) = submissions after_v13818
   \<and> length (submissions after_v13818) = 1
   \<and> fst (resubmit handleSubmit after_v13818 (example_ballot ''v146467'' ''NY'' False True)
          [''2026-01-06T09:00:00.000Z'', ''2026-01-07T09:00:00.000Z'']) =
     [Inl ExecError, Inl ExecError]"
proof -
  have "length (submissions after_v13818) = 1"
    by (simp add: after_v13818_def)
  with receipt_collision_refuses_ballot show ?thesis
    by simp
qed

text \<open>
  C10. The dedupe key of a well-formed payload is computed from its \<^verbatim>\<open>voter_id\<close> and
  \<^verbatim>\<open>schema_version\<close> (and the constant window id) only, so any well-formed payload
  \<open>q\<close> with the two fields of a payload \<open>p\<close>, whatever its ballot, region or other
  content, has the key of \<open>p\<close>. Once the second entry point has counted \<open>p\<close>, it
  answers \<open>q\<close> with \<^verbatim>\<open>counted: false\<close> and the receipt id issued for \<open>p\<close> and
  leaves the database as it was: the stored payload is still \<open>p\<close> and no counter or
  region row changes. \<^verbatim>\<open>handleSubmit\<close> of \<^verbatim>\<open>worker.js\<close> computes the same key for
  \<open>q\<close> and then throws in \<^verbatim>\<open>ensureSchema\<close>: it does not answer \<open>q\<close> with
  \<^verbatim>\<open>counted: false\<close> and the receipt id. It leaves the database as it was too.
\<close>

theorem same_voter_and_version_is_duplicate:
  assumes "validatePayload p = []" and "validatePayload q = []"
    and "opt_get (Some q) ''voter_id'' = opt_get (Some p) ''voter_id''"
    and "opt_get (Some q) ''schema_version'' = opt_get (Some p) ''schema_version''"
    and "handleSubmit_part0 now d (Some p) = (Inr (200, Accepted rid True msg), d')"
  shows "dedupeKey q = dedupeKey p
         \<and> handleSubmit_part0 now' d' (Some q) =
             (Inr (200, Accepted rid False ''Duplicate detected (already counted).''), d')
         \<and> payload_json (last (submissions d')) = p
         \<and> handleSubmit now' d' (Some q) = (Inl ExecError, d')"
proof -
  from handleSubmit_part0_counted_inversion[OF assms(5)] obtain key where
    key: "dedupeKey p = Inr key" and fresh: "key \<notin> set (map dedupe_key (submissions d))"
    and rid: "rid = receiptId key"
    and d': "d' = updateAggregates_part0 (d\<lparr>submissions := submissions d @ [new_row now p key]\<rparr>) p"
    by blast
  have same: "dedupeKey q = dedupeKey p"
    by (rule dedupeKey_same_fields[OF assms(1-4)])
  have subs: "submissions d' = submissions d @ [new_row now p key]"
    by (simp add: d' updateAggregates_part0_def submissions_upsert_region submissions_count_ballot)
  have found: "find (\<lambda>r. dedupe_key r = key) (submissions d') = Some (new_row now p key)"
    using fresh by (simp add: subs find_appended new_row_def)
  have nonempty: "receipt_id (new_row now p key) \<noteq> []"
    by (simp add: new_row_def receiptId_nonempty)
  have kq: "dedupeKey q = Inr key"
    by (simp add: same key)
  from assms(2) have vq: "validate q = []"
    by (simp add: validatePayload_empty_iff)
  have "handleSubmit_part0 now' d' (Some q) =
      (Inr (200, Accepted (receipt_id (new_row now p key)) False
                   ''Duplicate detected (already counted).''), d')"
    by (rule handleSubmit_part0_duplicate[OF vq kq found nonempty])
  then have dup: "handleSubmit_part0 now' d' (Some q) =
      (Inr (200, Accepted rid False ''Duplicate detected (already counted).''), d')"
    by (simp add: new_row_def rid)
  from dup handleSubmit_throws[OF assms(2) kq, of now' d'] same subs show ?thesis
    by (simp add: new_row_def)
qed

text \<open>
  Voter \<^verbatim>\<open>v1\<close> first approves from \<^verbatim>\<open>CA\<close>, then sends the opposite ballot from
  \<^verbatim>\<open>NY\<close>.
\<close>

theorem same_voter_and_version_is_duplicate_witness:
  "validatePayload (example_ballot ''v1'' ''CA'' True False) = []
   \<and> validatePayload (example_ballot ''v1'' ''NY'' False True) = []
   \<and> opt_get (Some (example_ballot ''v1'' ''NY'' False True)) ''voter_id'' = Some (JStr ''v1'')
   \<and> opt_get (Some (example_ballot ''v1'' ''CA'' True False)) ''voter_id'' = Some (JStr ''v1'')
   \<and> opt_get (Some (example_ballot ''v1'' ''NY'' False True)) ''schema_version'' = Some (JStr ''1'')
   \<and> opt_get (Some (example_ballot ''v1'' ''CA'' True False)) ''schema_version'' = Some (JStr ''1'')
   \<and> handleSubmit_part0 ''2026-01-05T12:00:01.000Z'' empty_db (Some (example_ballot ''v1'' ''CA'' True False)) =
       (Inr (200, Accepted ''r_5080479f'' True ''Submission received and counted.''), after_v1)
   \<and> example_ballot ''v1'' ''NY'' False True \<noteq> example_ballot ''v1'' ''CA'' True False
   \<and> handleSubmit_part0 ''2026-01-08T10:00:00.000Z'' after_v1 (Some (example_ballot ''v1'' ''NY'' False True)) =
       (Inr (200, Accepted ''r_5080479f'' False ''Duplicate detected (already counted).''), after_v1)
   \<and> payload_json (last (submissions after_v1)) = example_ballot ''v1'' ''CA'' True False
   \<and> handleSubmit ''2026-01-08T10:00:00.000Z'' after_v1 (Some (example_ballot ''v1'' ''NY'' False True)) =
       (Inl ExecError, after_v1)"
proof -
  let ?p = "example_ballot ''v1'' ''CA'' True False" and ?q = "example_ballot ''v1'' ''NY'' False True"
  have vp: "validatePayload ?p = []" and vq: "validatePayload ?q = []"
    by (simp_all add: ballot_valid)
  have voter: "opt_get (Some ?q) ''voter_id'' = opt_get (Some ?p) ''voter_id''"
    and version: "opt_get (Some ?q) ''schema_version'' = opt_get (Some ?p) ''schema_version''"
    by (simp_all add: example_ballot_def)
  have fields: "opt_get (Some ?p) ''voter_id'' = Some (JStr ''v1'')"
    "opt_get (Some ?p) ''schema_version'' = Some (JStr ''1'')"
    by (simp_all add: example_ballot_def)
  have differ: "?q \<noteq> ?p"
    by (simp add: example_ballot_def)
  from same_voter_and_version_is_duplicate[OF vp vq voter version first_ballot_v1,
      of "''2026-01-08T10:00:00.000Z''"] vp vq voter version fields differ first_ballot_v1
  show ?thesis by simp
qed

text \<open>
  C6. The fingerprint and the receipt id are functions of the converted \<^verbatim>\<open>voter_id\<close>
  and \<^verbatim>\<open>schema_version\<close> and the window id alone. Two well-formed payloads that agree
  on the two fields have the same dedupe key, in any two calls; the key is the SHA-256 of
  the three texts joined by \<^verbatim>\<open>|\<close>; and the receipt id of a key is \<^verbatim>\<open>r_\<close> followed
  by the first 8 characters of the SHA-256 of that key, at most ten characters. The two
  expressions are the same in both entry points. Two calls of the second entry point
  that count payloads agreeing on the two fields, at any two times and on any two
  databases, store that key and answer with that receipt id. \<^verbatim>\<open>handleSubmit\<close> of
  \<^verbatim>\<open>worker.js\<close> computes the key (line 87) and throws before it derives a receipt id,
  the same in every call.
\<close>

theorem fingerprint_and_receipt_deterministic:
  assumes "handleSubmit_part0 now1 d1 (Some p) = (Inr (200, Accepted rid1 True msg1), d1')"
    and "handleSubmit_part0 now2 d2 (Some q) = (Inr (200, Accepted rid2 True msg2), d2')"
    and "opt_get (Some q) ''voter_id'' = opt_get (Some p) ''voter_id''"
    and "opt_get (Some q) ''schema_version'' = opt_get (Some p) ''schema_version''"
  shows "rid1 = rid2
         \<and> dedupeKey q = dedupeKey p
         \<and> dedupeKey p = Inr (dedupe_key (last (submissions d1')))
         \<and> dedupe_key (last (submissions d1')) = dedupe_key (last (submissions d2'))
         \<and> receiptId (dedupe_key (last (submissions d1'))) = rid1
         \<and> receiptId key = ''r_'' @ take 8 (sha256 key)
         \<and> length (receiptId key) \<le> 10
         \<and> rid1 = ''r_'' @ take 8 (sha256 (dedupe_key (last (submissions d1'))))
         \<and> receipt_id (last (submissions d1')) = rid1
         \<and> (\<exists>voter_text version_text.
               template_string (opt_get (Some p) ''voter_id'') = Inr voter_text
             \<and> template_string (opt_get (Some p) ''schema_version'') = Inr version_text
             \<and> dedupe_key (last (submissions d1')) =
                 sha256 (voter_text @ ''|'' @ version_text @ ''|'' @ ''2026-01-03_to_2026-02-02''))
         \<and> fst (handleSubmit now1 d1 (Some p)) = Inl ExecError
         \<and> fst (handleSubmit now2 d2 (Some q)) = Inl ExecError"
proof -
  from handleSubmit_part0_counted_inversion[OF assms(1)] obtain k1 where
    wp: "validate p = []" and k1: "dedupeKey p = Inr k1" and r1: "rid1 = receiptId k1"
    and d1: "d1' = updateAggregates_part0 (d1\<lparr>submissions := submissions d1 @ [new_row now1 p k1]\<rparr>) p"
    by blast
  from handleSubmit_part0_counted_inversion[OF assms(2)] obtain k2 where
    wq: "validate q = []" and k2: "dedupeKey q = Inr k2" and r2: "rid2 = receiptId k2"
    and d2: "d2' = updateAggregates_part0 (d2\<lparr>submissions := submissions d2 @ [new_row now2 q k2]\<rparr>) q"
    by blast
  from wp wq have vp: "validatePayload p = []" and vq: "validatePayload q = []"
    by (simp_all add: validatePayload_empty_iff)
  have keys: "dedupeKey q = dedupeKey p"
    by (rule dedupeKey_same_fields[OF vp vq assms(3,4)])
  with k1 k2 have same: "k2 = k1" by simp
  have l1: "last (submissions d1') = new_row now1 p k1"
    by (simp add: d1 updateAggregates_part0_def submissions_upsert_region submissions_count_ballot)
  have l2: "last (submissions d2') = new_row now2 q k2"
    by (simp add: d2 updateAggregates_part0_def submissions_upsert_region submissions_count_ballot)
  from k1 obtain voter_text version_text where
    texts: "template_string (opt_get (Some p) ''voter_id'') = Inr voter_text"
      "template_string (opt_get (Some p) ''schema_version'') = Inr version_text"
      "k1 = sha256 (voter_text @ ''|'' @ version_text @ ''|'' @ windowId)"
    unfolding dedupeKey_valid[OF vp] by (auto split: sum.splits)
  have ten: "length (receiptId key) \<le> 10"
    by (simp add: receiptId_def)
  have thrown: "fst (handleSubmit now1 d1 (Some p)) = Inl ExecError"
    "fst (handleSubmit now2 d2 (Some q)) = Inl ExecError"
    by (simp_all add: handleSubmit_throws[OF vp k1] handleSubmit_throws[OF vq k2])
  from texts keys k1 ten thrown show ?thesis
    by (simp add: l1 l2 same r1 r2 new_row_def receiptId_def windowId_def)
qed

text \<open>
  Voter \<^verbatim>\<open>v1\<close> counted on the empty database, and voter \<^verbatim>\<open>v1\<close> with another
  ballot counted at another time on the database that holds the ballot of \<^verbatim>\<open>v13818\<close>.
\<close>

theorem fingerprint_and_receipt_deterministic_witness:
  "handleSubmit_part0 ''2026-01-05T12:00:01.000Z'' empty_db (Some (example_ballot ''v1'' ''CA'' True False)) =
     (Inr (200, Accepted ''r_5080479f'' True ''Submission received and counted.''), after_v1)
   \<and> fst (handleSubmit_part0 ''2026-01-09T07:30:00.000Z'' after_v13818 (Some (example_ballot ''v1'' ''NY'' False True))) =
       Inr (200, Accepted ''r_5080479f'' True ''Submission received and counted.'')
   \<and> dedupe_key (last (submissions after_v1)) =
       ''3b90893ec3071c364f721426d543910942e4b633446521ab133337404f8f1885''
   \<and> dedupe_key (last (submissions
         (snd (handleSubmit_part0 ''2026-01-09T07:30:00.000Z'' after_v13818 (Some (example_ballot ''v1'' ''NY'' False True)))))) =
       ''3b90893ec3071c364f721426d543910942e4b633446521ab133337404f8f1885''
   \<and> dedupeKey (example_ballot ''v1'' ''NY'' False True) =
       Inr ''3b90893ec3071c364f721426d543910942e4b633446521ab133337404f8f1885''
   \<and> ''r_5080479f'' = ''r_'' @ take 8 (sha256 ''3b90893ec3071c364f721426d543910942e4b633446521ab133337404f8f1885'')
   \<and> ''3b90893ec3071c364f721426d543910942e4b633446521ab133337404f8f1885'' =
       sha256 (''v1'' @ ''|'' @ ''1'' @ ''|'' @ ''2026-01-03_to_2026-02-02'')"
proof -
  let ?p = "example_ballot ''v1'' ''CA'' True False" and ?q = "example_ballot ''v1'' ''NY'' False True"
  let ?k = "''3b90893ec3071c364f721426d543910942e4b633446521ab133337404f8f1885''"
  let ?now = "''2026-01-09T07:30:00.000Z''"
  have second: "handleSubmit_part0 ?now after_v13818 (Some ?q) =
      (Inr (200, Accepted (receiptId ?k) True ''Submission received and counted.''),
       updateAggregates_part0 (after_v13818\<lparr>submissions := submissions after_v13818 @ [new_row ?now ?q ?k]\<rparr>) ?q)"
    by (rule handleSubmit_part0_counted)
      (simp_all add: ballot_valid_part0 ballot_key key_v1 receiptId_def receipt_v1 after_v13818_def)
  have rid: "receiptId ?k = ''r_5080479f''"
    by (simp add: receiptId_def receipt_v1)
  have voter: "opt_get (Some ?q) ''voter_id'' = opt_get (Some ?p) ''voter_id''"
    and version: "opt_get (Some ?q) ''schema_version'' = opt_get (Some ?p) ''schema_version''"
    by (simp_all add: example_ballot_def)
  have key: "dedupe_key (last (submissions after_v1)) = ?k"
    by (simp add: after_v1_def)
  from fingerprint_and_receipt_deterministic[OF first_ballot_v1 second[unfolded rid] voter version]
    first_ballot_v1 second rid key
  show ?thesis by (simp add: key_v1 receipt_v1)
qed

text \<open>
  C4. Both validators are pure functions from a payload to a list of messages, and both
  return the empty list exactly when \<^verbatim>\<open>schema_version\<close>, \<^verbatim>\<open>created_utc\<close>,
  \<^verbatim>\<open>voter_id\<close>, \<^verbatim>\<open>context.region\<close> and \<^verbatim>\<open>context.country_or_territory\<close> are
  present with truthy values (not \<^verbatim>\<open>null\<close>, \<^verbatim>\<open>false\<close>, \<^verbatim>\<open>0\<close> or the empty
  string), in which case the payload and its \<^verbatim>\<open>context\<close> are objects. \<^verbatim>\<open>validate\<close>
  returns one message \<^verbatim>\<open>Missing <field>\<close> for each of the five that is missing, in that
  order. \<^verbatim>\<open>validatePayload\<close> returns the same messages, with
  \<^verbatim>\<open>Missing context object\<close> added exactly when \<^verbatim>\<open>context\<close> is falsy or not an
  object, for a payload that is an object or an array; for \<^verbatim>\<open>null\<close> and for a
  string, number or boolean it returns the single message
  \<^verbatim>\<open>Payload must be JSON object\<close>.
\<close>

theorem validators_collect_missing_fields:
  "validate p = spec_messages p
   \<and> (validate p = [] \<longleftrightarrow> spec_missing_fields p = [])
   \<and> (validatePayload p = [] \<longleftrightarrow> spec_missing_fields p = [])
   \<and> (spec_missing_fields p = [] \<longrightarrow>
        (\<exists>kvs cs. p = JObj kvs \<and> opt_get (Some p) ''context'' = Some (JObj cs)))
   \<and> (truthy (Some p) \<and> typeof_object (Some p) \<longrightarrow>
        filter (\<lambda>m. m \<noteq> ''Missing context object'') (validatePayload p) = spec_messages p
        \<and> (''Missing context object'' \<in> set (validatePayload p) \<longleftrightarrow>
             \<not> (truthy (opt_get (Some p) ''context'')
                  \<and> typeof_object (opt_get (Some p) ''context''))))
   \<and> (\<not> (truthy (Some p) \<and> typeof_object (Some p)) \<longrightarrow>
        validatePayload p = [''Payload must be JSON object''])"
proof -
  have a: "validate p = spec_messages p"
    by (rule validate_spec_messages)
  have b: "validate p = [] \<longleftrightarrow> spec_missing_fields p = []"
    by (simp add: a spec_messages_empty_iff)
  have c: "validatePayload p = [] \<longleftrightarrow> spec_missing_fields p = []"
    by (simp add: validatePayload_empty_iff b)
  have d: "spec_missing_fields p = [] \<longrightarrow>
      (\<exists>kvs cs. p = JObj kvs \<and> opt_get (Some p) ''context'' = Some (JObj cs))"
  proof
    assume "spec_missing_fields p = []"
    with c have "validatePayload p = []" by simp
    from valid_shape[OF this] show "\<exists>kvs cs. p = JObj kvs \<and> opt_get (Some p) ''context'' = Some (JObj cs)"
      by auto
  qed
  from a b c d validatePayload_without_context_message[of p] validatePayload_context_message[of p]
    validatePayload_guard[of p]
  show ?thesis by simp
qed

text \<open>A payload that has only its \<^verbatim>\<open>voter_id\<close>.\<close>

theorem validators_collect_missing_fields_witness:
  "truthy (Some (JObj [(''voter_id'', JStr ''v1'')]))
   \<and> typeof_object (Some (JObj [(''voter_id'', JStr ''v1'')]))
   \<and> spec_messages (JObj [(''voter_id'', JStr ''v1'')]) =
       [''Missing schema_version'', ''Missing created_utc'', ''Missing context.region'',
        ''Missing context.country_or_territory'']
   \<and> validate (JObj [(''voter_id'', JStr ''v1'')]) =
       [''Missing schema_version'', ''Missing created_utc'', ''Missing context.region'',
        ''Missing context.country_or_territory'']
   \<and> filter (\<lambda>m. m \<noteq> ''Missing context object'') (validatePayload (JObj [(''voter_id'', JStr ''v1'')])) =
       [''Missing schema_version'', ''Missing created_utc'', ''Missing context.region'',
        ''Missing context.country_or_territory'']
   \<and> ''Missing context object'' \<in> set (validatePayload (JObj [(''voter_id'', JStr ''v1'')]))
   \<and> spec_missing_fields (example_ballot ''v1'' ''CA'' True False) = []
   \<and> validate (example_ballot ''v1'' ''CA'' True False) = []
   \<and> validatePayload (example_ballot ''v1'' ''CA'' True False) = []
   \<and> validatePayload (JNum ''42'') = [''Payload must be JSON object'']"
proof -
  let ?p = "JObj [(''voter_id'', JStr ''v1'')]"
  have obj: "truthy (Some ?p) \<and> typeof_object (Some ?p)"
    by simp
  have msgs: "spec_messages ?p =
       [''Missing schema_version'', ''Missing created_utc'', ''Missing context.region'',
        ''Missing context.country_or_territory'']"
    by (simp add: spec_messages_def spec_missing_fields_def required_fields_def)
  have ctx: "\<not> (truthy (opt_get (Some ?p) ''context'') \<and> typeof_object (opt_get (Some ?p) ''context''))"
    by simp
  have full: "spec_missing_fields (example_ballot ''v1'' ''CA'' True False) = []"
    by (simp add: spec_missing_fields_def required_fields_def example_ballot_def)
  have prim: "\<not> (truthy (Some (JNum ''42'')) \<and> typeof_object (Some (JNum ''42'')))"
    by simp
  note object = validators_collect_missing_fields[of ?p]
  note complete = validators_collect_missing_fields[of "example_ballot ''v1'' ''CA'' True False"]
  note primitive = validators_collect_missing_fields[of "JNum ''42''"]
  from object have v: "validate ?p = spec_messages ?p"
    by blast
  from object obj have f:
    "filter (\<lambda>m. m \<noteq> ''Missing context object'') (validatePayload ?p) = spec_messages ?p"
    by blast
  from object obj ctx have m: "''Missing context object'' \<in> set (validatePayload ?p)"
    by blast
  from complete full have e: "validate (example_ballot ''v1'' ''CA'' True False) = []"
    "validatePayload (example_ballot ''v1'' ''CA'' True False) = []"
    by blast+
  from primitive prim have g: "validatePayload (JNum ''42'') = [''Payload must be JSON object'']"
    by blast
  from obj msgs full v f m e g show ?thesis
    by simp
qed

text \<open>
  The claim as stated fails: \<^verbatim>\<open>null\<close> has none of the five fields and
  \<^verbatim>\<open>validatePayload\<close> answers with one message that names none of them; and a payload
  in which all five fields are present, \<^verbatim>\<open>voter_id\<close> as the empty string, is not
  accepted by either validator.
\<close>

theorem validator_counterexample:
  "spec_missing_fields JNull = required_fields
   \<and> length required_fields = 5
   \<and> validatePayload JNull = [''Payload must be JSON object'']
   \<and> validate JNull = [''Missing schema_version'', ''Missing created_utc'', ''Missing voter_id'',
        ''Missing context.region'', ''Missing context.country_or_territory'']
   \<and> opt_get (Some (example_ballot [] ''CA'' True False)) ''voter_id'' = Some (JStr [])
   \<and> validatePayload (example_ballot [] ''CA'' True False) = [''Missing voter_id'']
   \<and> validate (example_ballot [] ''CA'' True False) = [''Missing voter_id'']"
  by (simp add: spec_missing_fields_def required_fields_def validatePayload_def validate_def
      example_ballot_def)

text \<open>
  C9. The two entry points agree on which payloads they reject, on every response to a
  body that does not parse, on the status and error code with which they answer a
  payload that fails validation, on leaving the database untouched in both cases, on
  the statements that store and count a ballot that passes validation (lines 110 to 126
  of \<^verbatim>\<open>worker.js\<close>, lines 51 to 65 of the second entry point) and on the ledger
  update. Their validators do not return the same messages for a rejected payload, so
  the \<^verbatim>\<open>details\<close> of a \<^verbatim>\<open>VALIDATION_FAILED\<close> body differ. What
  \<^verbatim>\<open>handleSubmit\<close> of \<^verbatim>\<open>worker.js\<close> does between validation and those statements,
  where it awaits \<^verbatim>\<open>ensureSchema\<close>, is the matter of C3 and is not stated here.
\<close>

theorem entry_points_agree_up_to_details:
  "(validatePayload p = [] \<longleftrightarrow> validate p = [])
   \<and> updateAggregates d p = updateAggregates_part0 d p
   \<and> handleSubmit now d None = handleSubmit_part0 now d None
   \<and> (validatePayload p \<noteq> [] \<longrightarrow>
        handleSubmit now d (Some p) =
          (Inr (422, Rejected ''VALIDATION_FAILED'' (Some (validatePayload p))), d)
        \<and> handleSubmit_part0 now d (Some p) =
          (Inr (422, Rejected ''VALIDATION_FAILED'' (Some (validate p))), d))
   \<and> (validatePayload p = [] \<longrightarrow>
        store_and_count now d p key = store_and_count_part0 now d p key)"
proof -
  have "validatePayload p \<noteq> [] \<longrightarrow>
        handleSubmit now d (Some p) =
          (Inr (422, Rejected ''VALIDATION_FAILED'' (Some (validatePayload p))), d)
        \<and> handleSubmit_part0 now d (Some p) =
          (Inr (422, Rejected ''VALIDATION_FAILED'' (Some (validate p))), d)"
    by (simp add: handleSubmit_def handleSubmit_part0_def validatePayload_empty_iff)
  moreover have "handleSubmit now d None = handleSubmit_part0 now d None"
    by (simp add: handleSubmit_def handleSubmit_part0_def)
  ultimately show ?thesis
    using validatePayload_empty_iff[of p] updateAggregates_same[of d p]
      store_and_count_same[of p now d key]
    by blast
qed

text \<open>
  A payload without \<^verbatim>\<open>context\<close> sent to the database that holds the ballot of
  \<^verbatim>\<open>v1\<close>, and the ballot of \<^verbatim>\<open>v1\<close> stored and counted on the empty database.
\<close>

theorem entry_points_agree_up_to_details_witness:
  "validatePayload (JObj [(''schema_version'', JStr ''1''), (''created_utc'', JStr ''t''),
        (''voter_id'', JStr ''v2'')]) \<noteq> []
   \<and> handleSubmit ''2026-01-05T12:00:02.000Z'' after_v1
        (Some (JObj [(''schema_version'', JStr ''1''), (''created_utc'', JStr ''t''),
           (''voter_id'', JStr ''v2'')])) =
       (Inr (422, Rejected ''VALIDATION_FAILED''
          (Some [''Missing context object'', ''Missing context.region'',
                 ''Missing context.country_or_territory''])), after_v1)
   \<and> handleSubmit_part0 ''2026-01-05T12:00:02.000Z'' after_v1
        (Some (JObj [(''schema_version'', JStr ''1''), (''created_utc'', JStr ''t''),
           (''voter_id'', JStr ''v2'')])) =
       (Inr (422, Rejected ''VALIDATION_FAILED''
          (Some [''Missing context.region'', ''Missing context.country_or_territory''])), after_v1)
   \<and> validatePayload (example_ballot ''v1'' ''CA'' True False) = []
   \<and> store_and_count ''2026-01-05T12:00:01.000Z'' empty_db (example_ballot ''v1'' ''CA'' True False)
       ''3b90893ec3071c364f721426d543910942e4b633446521ab133337404f8f1885'' =
     (Inr (200, Accepted ''r_5080479f'' True ''Submission received and counted.''), after_v1)"
proof -
  let ?p = "example_ballot ''v1'' ''CA'' True False"
  let ?k = "''3b90893ec3071c364f721426d543910942e4b633446521ab133337404f8f1885''"
  let ?q = "JObj [(''schema_version'', JStr ''1''), (''created_utc'', JStr ''t''),
        (''voter_id'', JStr ''v2'')]"
  have vp: "validatePayload ?p = []"
    by (simp add: ballot_valid)
  have vq: "validatePayload ?q \<noteq> []"
    by (simp add: validatePayload_def)
  have lq: "validatePayload ?q = [''Missing context object'', ''Missing context.region'',
                 ''Missing context.country_or_territory'']"
    by (simp add: validatePayload_def)
  have mq: "validate ?q = [''Missing context.region'', ''Missing context.country_or_territory'']"
    by (simp add: validate_def)
  from entry_points_agree_up_to_details[where p = ?p and now = "''2026-01-05T12:00:01.000Z''"
      and d = empty_db and key = ?k] vp
  have first: "store_and_count ''2026-01-05T12:00:01.000Z'' empty_db ?p ?k =
      (Inr (200, Accepted ''r_5080479f'' True ''Submission received and counted.''), after_v1)"
    by (simp add: store_first_ballot_v1)
  from entry_points_agree_up_to_details[where p = ?q and now = "''2026-01-05T12:00:02.000Z''"
      and d = after_v1] vq
  have second: "handleSubmit ''2026-01-05T12:00:02.000Z'' after_v1 (Some ?q) =
      (Inr (422, Rejected ''VALIDATION_FAILED'' (Some (validatePayload ?q))), after_v1)
    \<and> handleSubmit_part0 ''2026-01-05T12:00:02.000Z'' after_v1 (Some ?q) =
      (Inr (422, Rejected ''VALIDATION_FAILED'' (Some (validate ?q))), after_v1)"
    by blast
  from vp vq first second show ?thesis
    by (simp only: lq mq simp_thms)
qed

text \<open>
  The claim as stated fails on a payload without \<^verbatim>\<open>context\<close>: the validators return
  different lists and the two handlers different response bodies.
\<close>

theorem entry_points_differ_counterexample:
  "validatePayload (JObj [(''schema_version'', JStr ''1''), (''created_utc'', JStr ''t''),
       (''voter_id'', JStr ''v2'')]) =
     [''Missing context object'', ''Missing context.region'', ''Missing context.country_or_territory'']
   \<and> validate (JObj [(''schema_version'', JStr ''1''), (''created_utc'', JStr ''t''),
       (''voter_id'', JStr ''v2'')]) =
     [''Missing context.region'', ''Missing context.country_or_territory'']
   \<and> fst (handleSubmit ''2026-01-05T12:00:02.000Z'' empty_db
        (Some (JObj [(''schema_version'', JStr ''1''), (''created_utc'', JStr ''t''),
           (''voter_id'', JStr ''v2'')]))) \<noteq>
     fst (handleSubmit_part0 ''2026-01-05T12:00:02.000Z'' empty_db
        (Some (JObj [(''schema_version'', JStr ''1''), (''created_utc'', JStr ''t''),
           (''voter_id'', JStr ''v2'')])))"
  by (simp add: validatePayload_def validate_def handleSubmit_def handleSubmit_part0_def)

text \<open>
  C8. Two requests with the same payload reach the second entry point together, on the
  empty database. Each runs the \<^verbatim>\<open>SELECT\<close> before either runs the \<^verbatim>\<open>INSERT\<close>, and
  each sees no row. The first \<^verbatim>\<open>INSERT\<close> succeeds and the ledger is updated once. The
  second \<^verbatim>\<open>INSERT\<close> is refused by the unique constraint and the handler throws: the
  request is not answered \<^verbatim>\<open>counted: false\<close> with the existing receipt id, which is
  what the same request gets when it starts after the first has finished. The
  \<^verbatim>\<open>INSERT\<close> of \<^verbatim>\<open>worker.js\<close> is written in the same way, after the \<^verbatim>\<open>SELECT\<close>
  and with no handling of the conflict, and is refused in the same way; its handler
  throws in \<^verbatim>\<open>ensureSchema\<close> on every such request, also on the first.
\<close>

theorem concurrent_duplicate_throws:
  "check_duplicate_part0 empty_db (Some (example_ballot ''v1'' ''CA'' True False)) =
     Absent (example_ballot ''v1'' ''CA'' True False)
       ''3b90893ec3071c364f721426d543910942e4b633446521ab133337404f8f1885''
   \<and> store_and_count_part0 ''2026-01-05T12:00:01.000Z'' empty_db (example_ballot ''v1'' ''CA'' True False)
       ''3b90893ec3071c364f721426d543910942e4b633446521ab133337404f8f1885'' =
     (Inr (200, Accepted ''r_5080479f'' True ''Submission received and counted.''), after_v1)
   \<and> store_and_count_part0 ''2026-01-05T12:00:01.002Z'' after_v1 (example_ballot ''v1'' ''CA'' True False)
       ''3b90893ec3071c364f721426d543910942e4b633446521ab133337404f8f1885'' =
     (Inl UniqueConstraintFailed, after_v1)
   \<and> handleSubmit_part0 ''2026-01-05T12:00:01.002Z'' after_v1 (Some (example_ballot ''v1'' ''CA'' True False)) =
     (Inr (200, Accepted ''r_5080479f'' False ''Duplicate detected (already counted).''), after_v1)
   \<and> store_and_count ''2026-01-05T12:00:01.000Z'' empty_db (example_ballot ''v1'' ''CA'' True False)
       ''3b90893ec3071c364f721426d543910942e4b633446521ab133337404f8f1885'' =
     (Inr (200, Accepted ''r_5080479f'' True ''Submission received and counted.''), after_v1)
   \<and> store_and_count ''2026-01-05T12:00:01.002Z'' after_v1 (example_ballot ''v1'' ''CA'' True False)
       ''3b90893ec3071c364f721426d543910942e4b633446521ab133337404f8f1885'' =
     (Inl UniqueConstraintFailed, after_v1)
   \<and> handleSubmit ''2026-01-05T12:00:01.000Z'' empty_db (Some (example_ballot ''v1'' ''CA'' True False)) =
     (Inl ExecError, empty_db)
   \<and> handleSubmit ''2026-01-05T12:00:01.002Z'' empty_db (Some (example_ballot ''v1'' ''CA'' True False)) =
     (Inl ExecError, empty_db)"
proof -
  let ?p = "example_ballot ''v1'' ''CA'' True False"
  let ?k = "''3b90893ec3071c364f721426d543910942e4b633446521ab133337404f8f1885''"
  have v: "validatePayload ?p = []"
    by (simp add: ballot_valid)
  have k: "dedupeKey ?p = Inr ?k"
    by (simp add: ballot_key key_v1)
  have seen: "check_duplicate_part0 empty_db (Some ?p) = Absent ?p ?k"
    by (simp add: check_duplicate_part0_def ballot_valid_part0 k select_receipt_id_def empty_db_def)
  have won: "store_and_count_part0 ''2026-01-05T12:00:01.000Z'' empty_db ?p ?k =
      (Inr (200, Accepted ''r_5080479f'' True ''Submission received and counted.''), after_v1)"
    by (rule store_first_ballot_v1)
  have lost: "store_and_count_part0 ''2026-01-05T12:00:01.002Z'' after_v1 ?p ?k =
      (Inl UniqueConstraintFailed, after_v1)"
    by (simp add: store_and_count_part0_def insert_submission_def after_v1_def)
  have later: "handleSubmit_part0 ''2026-01-05T12:00:01.002Z'' after_v1 (Some ?p) =
      (Inr (200, Accepted ''r_5080479f'' False ''Duplicate detected (already counted).''), after_v1)"
    using handleSubmit_part0_duplicate[of ?p ?k after_v1 "hd (submissions after_v1)"
        "''2026-01-05T12:00:01.002Z''"]
    by (simp add: ballot_valid_part0 k after_v1_def)
  have thrown: "handleSubmit now empty_db (Some ?p) = (Inl ExecError, empty_db)" for now
    by (rule handleSubmit_throws[OF v k])
  from seen won lost later thrown show ?thesis
    by (simp add: store_and_count_same[OF v])
qed

text \<open>
  The request that lost the race and the same request sent later get different
  outcomes.
\<close>

theorem concurrent_duplicate_throws_witness:
  "fst (store_and_count_part0 ''2026-01-05T12:00:01.002Z'' after_v1 (example_ballot ''v1'' ''CA'' True False)
         ''3b90893ec3071c364f721426d543910942e4b633446521ab133337404f8f1885'') =
     Inl UniqueConstraintFailed
   \<and> fst (handleSubmit_part0 ''2026-01-05T12:00:01.002Z'' after_v1 (Some (example_ballot ''v1'' ''CA'' True False))) =
     Inr (200, Accepted ''r_5080479f'' False ''Duplicate detected (already counted).'')"
  using concurrent_duplicate_throws by simp

text \<open>
  C7. In the report a rate is to be \<^verbatim>\<open>null\<close> exactly when its total is 0 and otherwise
  \<open>100 * count / total\<close> rounded to one decimal place, \<^verbatim>\<open>33.3\<close> for 1 of 3. The
  rate expression of \<^verbatim>\<open>worker.js\<close> is \<^verbatim>\<open>null\<close> exactly when the total is 0 and gives
  \<^verbatim>\<open>33.3\<close> for 1 of 3. It rounds twice, in the multiplication by 100 and in
  \<^verbatim>\<open>round1\<close>: for 23 of 80, where \<open>100 * count / total\<close> is 28.75, it gives
  \<^verbatim>\<open>28.7\<close>, and for 1 of 16, where it is 6.25, it gives \<^verbatim>\<open>6.3\<close>. So it is neither
  the rate rounded half up (28.8 and 6.3) nor half to even (28.8 and 6.2) nor half down
  (28.7 and 6.2). The expression of the second entry point multiplies by 1000 before it
  rounds and gives \<^verbatim>\<open>28.8\<close>, \<^verbatim>\<open>6.3\<close> and \<^verbatim>\<open>33.3\<close>. \<^verbatim>\<open>handleResults\<close> of
  \<^verbatim>\<open>worker.js\<close> awaits \<^verbatim>\<open>ensureSchema\<close> first and throws: it returns no report. The
  second entry point returns its report with status 200 and computes each rate of the
  ballot with its expression from the counters.
\<close>

theorem rates_not_rounded_to_one_decimal:
  "handleResults now d = Inl ExecError
   \<and> (rate_percent part whole = None \<longleftrightarrow> whole = 0)
   \<and> rate_percent 1 3 = Some (to_double 333 10)
   \<and> (100 * 23 / 80 :: rat) = 2875 / 100
   \<and> rate_percent 23 80 = Some (to_double 287 10)
   \<and> (100 * 1 / 16 :: rat) = 625 / 100
   \<and> rate_percent 1 16 = Some (to_double 63 10)
   \<and> val (to_double 287 10) < val (to_double 288 10)
   \<and> val (to_double 62 10) < val (to_double 63 10)
   \<and> (rate_percent_part0 part whole = None \<longleftrightarrow> whole = 0)
   \<and> rate_percent_part0 1 3 = Some (to_double 333 10)
   \<and> rate_percent_part0 23 80 = Some (to_double 288 10)
   \<and> rate_percent_part0 1 16 = Some (to_double 63 10)
   \<and> fst (handleResults_part0 now d) = 200
   \<and> approval_rate_percent (ballot (snd (handleResults_part0 now d))) =
       rate_percent_part0 (counter d ''approve_interim_yes'') (counter d ''total_submissions_counted'')
   \<and> prefer_open_rate_percent (ballot (snd (handleResults_part0 now d))) =
       rate_percent_part0 (counter d ''prefer_open_contest_yes'') (counter d ''total_submissions_counted'')
   \<and> regional_balance (snd (handleResults_part0 now d)) =
       map (\<lambda>(r, t, a). (r, t, rate_percent_part0 a t)) (region_counts d)"
proof -
  have thrown: "handleResults now d = Inl ExecError"
    by (rule handleResults_throws)
  have null: "rate_percent part whole = None \<longleftrightarrow> whole = 0"
    "rate_percent_part0 part whole = None \<longleftrightarrow> whole = 0"
    by (simp_all add: rate_percent_def rate_percent_part0_def)
  have third: "rate_percent 1 3 = Some (to_double 333 10)"
    "rate_percent_part0 1 3 = Some (to_double 333 10)"
    by (simp_all add: number_eval)
  have sixteenth: "rate_percent 1 16 = Some (to_double 63 10)"
    "rate_percent_part0 1 16 = Some (to_double 63 10)"
    by (simp_all add: number_eval)
  have exact: "(100 * 23 / 80 :: rat) = 2875 / 100" "(100 * 1 / 16 :: rat) = 625 / 100"
    by simp_all
  have less: "val (to_double 287 10) < val (to_double 288 10)"
    by (simp add: rate_23_of_80 val_pair power_int_minus_divide)
  have less': "val (to_double 62 10) < val (to_double 63 10)"
    by (simp add: number_eval val_pair power_int_minus_divide)
  have status: "fst (handleResults_part0 now d) = 200"
    by (simp add: handleResults_part0_def Let_def)
  from thrown null third sixteenth exact less less' status rate_23_of_80(1,2) show ?thesis
    by (simp only: handleResults_part0_rates simp_thms)
qed

text \<open>
  The report asked for on the database that holds the ballot of \<^verbatim>\<open>v1\<close>, and the rate
  for a total of 0.
\<close>

theorem rates_not_rounded_to_one_decimal_witness:
  "handleResults ''2026-01-05T13:00:00.000Z'' after_v1 = Inl ExecError
   \<and> rate_percent 5 0 = None
   \<and> rate_percent 23 80 = Some (8078331831595827, - 48)
   \<and> rate_percent_part0 23 80 = Some (8106479329266893, - 48)
   \<and> approval_rate_percent (ballot (snd (handleResults_part0 ''2026-01-05T13:00:00.000Z'' after_v1))) =
       Some (to_double 100 1)
   \<and> prefer_open_rate_percent (ballot (snd (handleResults_part0 ''2026-01-05T13:00:00.000Z'' after_v1))) =
       Some (0, 0)
   \<and> regional_balance (snd (handleResults_part0 ''2026-01-05T13:00:00.000Z'' after_v1)) =
       [(JStr ''CA'', 1, Some (to_double 100 1))]"
proof -
  note at_v1 = rates_not_rounded_to_one_decimal[of "''2026-01-05T13:00:00.000Z''" after_v1 5 0]
  have c1: "counter after_v1 ''total_submissions_counted'' = 1"
    "counter after_v1 ''approve_interim_yes'' = 1"
    "counter after_v1 ''prefer_open_contest_yes'' = 0"
    by (simp_all add: counter_def after_v1_def)
  have one: "rate_percent_part0 1 1 = Some (to_double 100 1)"
    by (simp add: number_eval)
  have zero: "rate_percent_part0 0 1 = Some (0, 0)"
    by (simp add: number_eval)
  have regions: "region_counts after_v1 = [(JStr ''CA'', 1, 1)]"
    by (simp add: after_v1_def)
  from at_v1 have thrown: "handleResults ''2026-01-05T13:00:00.000Z'' after_v1 = Inl ExecError"
    and null: "rate_percent 5 0 = None"
    and r1: "approval_rate_percent (ballot (snd (handleResults_part0 ''2026-01-05T13:00:00.000Z'' after_v1))) =
      rate_percent_part0 1 1"
    and r2: "prefer_open_rate_percent (ballot (snd (handleResults_part0 ''2026-01-05T13:00:00.000Z'' after_v1))) =
      rate_percent_part0 0 1"
    and r3: "regional_balance (snd (handleResults_part0 ''2026-01-05T13:00:00.000Z'' after_v1)) =
      map (\<lambda>(r, t, a). (r, t, rate_percent_part0 a t)) (region_counts after_v1)"
    and w: "rate_percent 23 80 = Some (to_double 287 10)"
    and s: "rate_percent_part0 23 80 = Some (to_double 288 10)"
    by (simp_all add: c1)
  from thrown null r1 r2 r3 w s one zero regions show ?thesis
    by (simp add: rate_23_of_80(3,4))
qed

section \<open>Further properties\<close>

text \<open>
  X1. Idempotent counting in the second entry point where no receipt id collides: a
  well-formed payload whose dedupe key is not stored and whose receipt id no stored row
  holds, sent once or more, adds exactly one row, raises \<^verbatim>\<open>total_submissions_counted\<close>
  by one, and is answered \<^verbatim>\<open>counted: true\<close> the first time and \<^verbatim>\<open>counted: false\<close>
  with the same receipt id every later time.
\<close>

theorem counted_once_without_collision:
  assumes "validate p = []" and "dedupeKey p = Inr key"
    and "key \<notin> set (map dedupe_key (submissions d))"
    and "receiptId key \<notin> set (map receipt_id (submissions d))"
  shows "fst (resubmit handleSubmit_part0 d p (now # clock)) =
           Inr (200, Accepted (receiptId key) True ''Submission received and counted.'') #
           replicate (length clock)
             (Inr (200, Accepted (receiptId key) False ''Duplicate detected (already counted).''))
         \<and> submissions (snd (resubmit handleSubmit_part0 d p (now # clock))) =
             submissions d @ [new_row now p key]
         \<and> counter (snd (resubmit handleSubmit_part0 d p (now # clock))) ''total_submissions_counted'' =
             counter d ''total_submissions_counted'' + 1"
proof -
  let ?d' = "updateAggregates_part0 (d\<lparr>submissions := submissions d @ [new_row now p key]\<rparr>) p"
  have total: "counter ?d' ''total_submissions_counted'' = counter d ''total_submissions_counted'' + 1"
    by (simp add: updateAggregates_part0_def counter_upsert_region counter_count_ballot
        counter_submissions_update)
  have rows: "submissions ?d' = submissions d @ [new_row now p key]"
    by (simp add: updateAggregates_part0_def submissions_upsert_region submissions_count_ballot)
  have run: "resubmit handleSubmit_part0 d p (now # clock) =
      (Inr (200, Accepted (receiptId key) True ''Submission received and counted.'') #
       replicate (length clock)
         (Inr (200, Accepted (receiptId key) False ''Duplicate detected (already counted).'')), ?d')"
    by (rule resubmit_part0_counted_once[OF assms])
  show ?thesis
    unfolding run fst_conv snd_conv using total rows by simp
qed

theorem counted_once_without_collision_witness:
  "fst (resubmit handleSubmit_part0 empty_db (example_ballot ''v1'' ''CA'' True False)
          [''2026-01-05T12:00:01.000Z'', ''2026-01-05T12:00:02.000Z'', ''2026-01-05T12:00:03.000Z'']) =
     [Inr (200, Accepted ''r_5080479f'' True ''Submission received and counted.''),
      Inr (200, Accepted ''r_5080479f'' False ''Duplicate detected (already counted).''),
      Inr (200, Accepted ''r_5080479f'' False ''Duplicate detected (already counted).'')]
   \<and> length (submissions (snd (resubmit handleSubmit_part0 empty_db (example_ballot ''v1'' ''CA'' True False)
          [''2026-01-05T12:00:01.000Z'', ''2026-01-05T12:00:02.000Z'', ''2026-01-05T12:00:03.000Z'']))) = 1
   \<and> counter (snd (resubmit handleSubmit_part0 empty_db (example_ballot ''v1'' ''CA'' True False)
          [''2026-01-05T12:00:01.000Z'', ''2026-01-05T12:00:02.000Z'', ''2026-01-05T12:00:03.000Z'']))
        ''total_submissions_counted'' = 1"
proof -
  let ?p = "example_ballot ''v1'' ''CA'' True False"
  let ?k = "''3b90893ec3071c364f721426d543910942e4b633446521ab133337404f8f1885''"
  have v: "validate ?p = []"
    by (simp add: ballot_valid_part0)
  have k: "dedupeKey ?p = Inr ?k"
    by (simp add: ballot_key key_v1)
  have fresh: "?k \<notin> set (map dedupe_key (submissions empty_db))"
    "receiptId ?k \<notin> set (map receipt_id (submissions empty_db))"
    by (simp_all add: empty_db_def)
  have rid: "receiptId ?k = ''r_5080479f''"
    by (simp add: receiptId_def receipt_v1)
  have zero: "counter empty_db ''total_submissions_counted'' = 0"
    by (simp add: counter_def empty_db_def)
  from counted_once_without_collision[OF v k fresh, of "''2026-01-05T12:00:01.000Z''"
      "[''2026-01-05T12:00:02.000Z'', ''2026-01-05T12:00:03.000Z'']"] rid zero
  show ?thesis
    by (simp add: empty_db_def del: resubmit.simps)
qed

text \<open>
  X2. The example payload of the specification, which has no \<^verbatim>\<open>created_utc\<close>, is rejected
  by both entry points and nothing is stored.
\<close>

theorem payload_without_created_utc_rejected:
  "validatePayload (JObj [(''voter_id'', JStr ''v1''), (''schema_version'', JStr ''1''),
       (''context'', JObj [(''region'', JStr ''CA''), (''country_or_territory'', JStr ''US'')]),
       (''ballot_track_a'', JObj [(''approve_interim_masculine_regent'', JBool True),
          (''prefer_open_contest_in_approx_90_days'', JBool False)])]) = [''Missing created_utc'']
   \<and> handleSubmit ''2026-01-05T12:00:01.000Z'' empty_db
        (Some (JObj [(''voter_id'', JStr ''v1''), (''schema_version'', JStr ''1''),
           (''context'', JObj [(''region'', JStr ''CA''), (''country_or_territory'', JStr ''US'')]),
           (''ballot_track_a'', JObj [(''approve_interim_masculine_regent'', JBool True),
              (''prefer_open_contest_in_approx_90_days'', JBool False)])])) =
       (Inr (422, Rejected ''VALIDATION_FAILED'' (Some [''Missing created_utc''])), empty_db)
   \<and> handleSubmit_part0 ''2026-01-05T12:00:01.000Z'' empty_db
        (Some (JObj [(''voter_id'', JStr ''v1''), (''schema_version'', JStr ''1''),
           (''context'', JObj [(''region'', JStr ''CA''), (''country_or_territory'', JStr ''US'')]),
           (''ballot_track_a'', JObj [(''approve_interim_masculine_regent'', JBool True),
              (''prefer_open_contest_in_approx_90_days'', JBool False)])])) =
       (Inr (422, Rejected ''VALIDATION_FAILED'' (Some [''Missing created_utc''])), empty_db)"
  by (simp add: validatePayload_def validate_def handleSubmit_def handleSubmit_part0_def)

theorem payload_without_created_utc_rejected_witness:
  "snd (handleSubmit ''2026-01-05T12:00:01.000Z'' empty_db
        (Some (JObj [(''voter_id'', JStr ''v1''), (''schema_version'', JStr ''1''),
           (''context'', JObj [(''region'', JStr ''CA''), (''country_or_territory'', JStr ''US'')]),
           (''ballot_track_a'', JObj [(''approve_interim_masculine_regent'', JBool True),
              (''prefer_open_contest_in_approx_90_days'', JBool False)])]))) = empty_db"
  using payload_without_created_utc_rejected by simp

text \<open>
  X3. The fingerprint joins the two texts with \<^verbatim>\<open>|\<close> and does not escape it: voter
  \<^verbatim>\<open>ann|1\<close> with schema version \<^verbatim>\<open>2\<close> and voter \<^verbatim>\<open>ann\<close> with schema version
  \<^verbatim>\<open>1|2\<close> have one dedupe key, and so have the number \<^verbatim>\<open>7\<close> and the string
  \<^verbatim>\<open>7\<close> as voter ids. Once the second entry point has counted the first of such a
  pair, it answers the other voter as a duplicate.
\<close>

theorem separator_aliases_voters:
  "dedupeKey (JObj [(''schema_version'', JStr ''2''), (''created_utc'', JStr ''t''),
       (''voter_id'', JStr ''ann|1''),
       (''context'', JObj [(''region'', JStr ''CA''), (''country_or_territory'', JStr ''US'')])]) =
     Inr (sha256 ''ann|1|2|2026-01-03_to_2026-02-02'')
   \<and> dedupeKey (JObj [(''schema_version'', JStr ''1|2''), (''created_utc'', JStr ''t''),
       (''voter_id'', JStr ''ann''),
       (''context'', JObj [(''region'', JStr ''NY''), (''country_or_territory'', JStr ''US'')])]) =
     Inr (sha256 ''ann|1|2|2026-01-03_to_2026-02-02'')
   \<and> dedupeKey (JObj [(''schema_version'', JStr ''1''), (''voter_id'', JNum ''7'')]) =
       dedupeKey (JObj [(''schema_version'', JStr ''1''), (''voter_id'', JStr ''7'')])
   \<and> fst (handleSubmit_part0 ''2026-01-05T12:00:01.000Z'' empty_db
        (Some (JObj [(''schema_version'', JStr ''2''), (''created_utc'', JStr ''t''),
           (''voter_id'', JStr ''ann|1''),
           (''context'', JObj [(''region'', JStr ''CA''), (''country_or_territory'', JStr ''US'')])]))) =
       Inr (200, Accepted (receiptId (sha256 ''ann|1|2|2026-01-03_to_2026-02-02'')) True
                    ''Submission received and counted.'')
   \<and> fst (handleSubmit_part0 ''2026-01-05T12:00:02.000Z''
        (snd (handleSubmit_part0 ''2026-01-05T12:00:01.000Z'' empty_db
           (Some (JObj [(''schema_version'', JStr ''2''), (''created_utc'', JStr ''t''),
              (''voter_id'', JStr ''ann|1''),
              (''context'', JObj [(''region'', JStr ''CA''), (''country_or_territory'', JStr ''US'')])]))))
        (Some (JObj [(''schema_version'', JStr ''1|2''), (''created_utc'', JStr ''t''),
           (''voter_id'', JStr ''ann''),
           (''context'', JObj [(''region'', JStr ''NY''), (''country_or_territory'', JStr ''US'')])]))) =
       Inr (200, Accepted (receiptId (sha256 ''ann|1|2|2026-01-03_to_2026-02-02'')) False
                    ''Duplicate detected (already counted).'')"
proof -
  let ?p = "JObj [(''schema_version'', JStr ''2''), (''created_utc'', JStr ''t''),
       (''voter_id'', JStr ''ann|1''),
       (''context'', JObj [(''region'', JStr ''CA''), (''country_or_territory'', JStr ''US'')])]"
  let ?q = "JObj [(''schema_version'', JStr ''1|2''), (''created_utc'', JStr ''t''),
       (''voter_id'', JStr ''ann''),
       (''context'', JObj [(''region'', JStr ''NY''), (''country_or_territory'', JStr ''US'')])]"
  let ?k = "sha256 ''ann|1|2|2026-01-03_to_2026-02-02''"
  let ?t = "''2026-01-05T12:00:01.000Z''"
  let ?d = "updateAggregates_part0 (empty_db\<lparr>submissions := submissions empty_db @ [new_row ?t ?p ?k]\<rparr>) ?p"
  have vp: "validate ?p = []" and vq: "validate ?q = []"
    by (simp_all add: validate_def)
  have kp: "dedupeKey ?p = Inr ?k" and kq: "dedupeKey ?q = Inr ?k"
    by (simp_all add: dedupeKey_def windowId_def)
  have num: "dedupeKey (JObj [(''schema_version'', JStr ''1''), (''voter_id'', JNum ''7'')]) =
       dedupeKey (JObj [(''schema_version'', JStr ''1''), (''voter_id'', JStr ''7'')])"
    by (simp add: dedupeKey_def)
  have first: "handleSubmit_part0 ?t empty_db (Some ?p) =
      (Inr (200, Accepted (receiptId ?k) True ''Submission received and counted.''), ?d)"
    by (rule handleSubmit_part0_counted[OF vp kp]) (simp_all add: empty_db_def)
  have found: "find (\<lambda>r. dedupe_key r = ?k) (submissions ?d) = Some (new_row ?t ?p ?k)"
    by (simp add: updateAggregates_part0_def submissions_upsert_region submissions_count_ballot
        empty_db_def new_row_def)
  have "handleSubmit_part0 ''2026-01-05T12:00:02.000Z'' ?d (Some ?q) =
      (Inr (200, Accepted (receipt_id (new_row ?t ?p ?k)) False
                   ''Duplicate detected (already counted).''), ?d)"
    by (rule handleSubmit_part0_duplicate[OF vq kq found]) (simp add: new_row_def receiptId_nonempty)
  then have second: "fst (handleSubmit_part0 ''2026-01-05T12:00:02.000Z'' ?d (Some ?q)) =
      Inr (200, Accepted (receiptId ?k) False ''Duplicate detected (already counted).'')"
    by (simp add: new_row_def)
  from kp kq num first second show ?thesis
    by (simp only: fst_conv snd_conv simp_thms)
qed

theorem separator_aliases_voters_witness:
  "dedupeKey (JObj [(''schema_version'', JStr ''1|2''), (''created_utc'', JStr ''t''),
       (''voter_id'', JStr ''ann''),
       (''context'', JObj [(''region'', JStr ''NY''), (''country_or_territory'', JStr ''US'')])]) =
   dedupeKey (JObj [(''schema_version'', JStr ''2''), (''created_utc'', JStr ''t''),
       (''voter_id'', JStr ''ann|1''),
       (''context'', JObj [(''region'', JStr ''CA''), (''country_or_territory'', JStr ''US'')])])"
  using separator_aliases_voters by simp

text \<open>
  X4. For a total that is not 0 and numbers in range (a count below \<open>2 ^ 39\<close>, a total
  below \<open>2 ^ 53\<close>), the rate expression of \<^verbatim>\<open>worker.js\<close> yields the double for
  \<open>k / 10\<close>, where the integer \<open>k\<close> is within one half of \<open>1000 * count / total\<close>:
  the rate it gives is one of the two tenths next to the percentage.
\<close>

theorem rate_expression_within_half_tenth:
  "0 < whole \<and> part < 2 ^ 39 \<and> whole < 2 ^ 53 \<longrightarrow>
     (\<exists>k. rate_percent part whole = Some (js_div (k, 0) (10, 0))
        \<and> 0 \<le> k
        \<and> \<bar>of_int k - (of_nat (1000 * part) / of_nat whole :: rat)\<bar> \<le> 1 / 2
        \<and> \<bar>val (js_div (k, 0) (10, 0)) - of_int k / 10\<bar> \<le> (of_int k / 10) / 2 ^ 53)"
proof
  assume a: "0 < whole \<and> part < 2 ^ 39 \<and> whole < 2 ^ 53"
  then obtain k where k: "rate_percent part whole = Some (js_div (k, 0) (10, 0))"
    and near: "\<bar>of_int k - (of_nat (1000 * part) / of_nat whole :: rat)\<bar> \<le> 1 / 2"
    using rate_percent_nearest_tenth[of whole part] by blast
  have "(0::rat) \<le> of_nat (1000 * part) / of_nat whole" by simp
  with near have "(- 1 :: rat) < of_int k" by linarith
  then have "(of_int (- 1) :: rat) < of_int k" by simp
  then have "- 1 < k" by (simp only: of_int_less_iff)
  then have nonneg: "0 \<le> k" by simp
  from k nonneg near tenth_value[OF nonneg]
  show "\<exists>k. rate_percent part whole = Some (js_div (k, 0) (10, 0))
         \<and> 0 \<le> k
         \<and> \<bar>of_int k - (of_nat (1000 * part) / of_nat whole :: rat)\<bar> \<le> 1 / 2
         \<and> \<bar>val (js_div (k, 0) (10, 0)) - of_int k / 10\<bar> \<le> (of_int k / 10) / 2 ^ 53"
    by blast
qed

text \<open>One approval among three submissions.\<close>

theorem rate_expression_within_half_tenth_witness:
  "(0::nat) < 3 \<and> (1::nat) < 2 ^ 39 \<and> (3::nat) < 2 ^ 53
   \<and> (\<exists>k. rate_percent 1 3 = Some (js_div (k, 0) (10, 0))
        \<and> 0 \<le> k
        \<and> \<bar>of_int k - (of_nat (1000 * 1) / of_nat 3 :: rat)\<bar> \<le> 1 / 2
        \<and> \<bar>val (js_div (k, 0) (10, 0)) - of_int k / 10\<bar> \<le> (of_int k / 10) / 2 ^ 53)
   \<and> rate_percent 1 3 = Some (js_div (333, 0) (10, 0))
   \<and> js_div (333, 0) (10, 0) = (4686558362232422, - 47)
   \<and> val (4686558362232422, - 47) = 2343279181116211 / 70368744177664"
proof -
  have bounds: "(0::nat) < 3 \<and> (1::nat) < 2 ^ 39 \<and> (3::nat) < 2 ^ 53"
    by simp
  with rate_expression_within_half_tenth[of 3 1]
  have near: "\<exists>k. rate_percent 1 3 = Some (js_div (k, 0) (10, 0))
        \<and> 0 \<le> k
        \<and> \<bar>of_int k - (of_nat (1000 * 1) / of_nat 3 :: rat)\<bar> \<le> 1 / 2
        \<and> \<bar>val (js_div (k, 0) (10, 0)) - of_int k / 10\<bar> \<le> (of_int k / 10) / 2 ^ 53"
    by blast
  have third: "rate_percent 1 3 = Some (js_div (333, 0) (10, 0))"
    using rate_one_of_three literal_33_3 by (simp add: js_div_def)
  have lit: "js_div (333, 0) (10, 0) = (4686558362232422, - 47)"
    by (simp add: js_div_def literal_33_3)
  have v: "val (4686558362232422, - 47) = 2343279181116211 / 70368744177664"
    by (simp add: val_pair power_int_minus_divide)
  from bounds near third lit v show ?thesis
    by blast
qed

text \<open>
  X5. \<^verbatim>\<open>worker.js\<close> accepts no submission and gives no report: for every payload that
  passes validation \<^verbatim>\<open>handleSubmit\<close> throws and leaves the database as it was, whatever
  the database holds; no request at all is answered with a receipt id; no sequence of
  requests changes the database; and \<^verbatim>\<open>handleResults\<close> throws on every call. The
  script that \<^verbatim>\<open>ensureSchema\<close> hands to \<^verbatim>\<open>DB.exec\<close> is refused at its first line.
\<close>

theorem worker_entry_point_throws:
  "(validatePayload p = [] \<longrightarrow>
      handleSubmit now d (Some p) = (Inl ExecError, d)
      \<or> handleSubmit now d (Some p) = (Inl TypeError, d))
   \<and> fst (handleSubmit now d request) \<noteq> Inr (status, Accepted rid counted msg)
   \<and> submit_all handleSubmit d rs = d
   \<and> handleResults now d = Inl ExecError
   \<and> ensureSchema d = Inl ExecError
   \<and> \<not> whole_statement (hd schema_script)"
proof -
  have "handleSubmit now d (Some p) = (Inl ExecError, d)
      \<or> handleSubmit now d (Some p) = (Inl TypeError, d)" if v: "validatePayload p = []"
  proof (cases "dedupeKey p")
    case (Inl e)
    then have "e = TypeError"
      using dedupeKey_throws by blast
    with Inl v show ?thesis by (simp add: handleSubmit_def)
  next
    case (Inr key)
    from handleSubmit_throws[OF v Inr] show ?thesis by simp
  qed
  moreover have "\<not> whole_statement (hd schema_script)"
    by (simp add: schema_script_def whole_statement_def)
  ultimately show ?thesis
    using handleSubmit_never_accepts[of now d request status rid counted msg]
      submit_all_handleSubmit[of d rs] handleResults_throws[of now d] ensureSchema_throws[of d]
    by blast
qed

text \<open>
  The ballot of \<^verbatim>\<open>v1\<close> on the empty database, and a voter id with a
  \<^verbatim>\<open>toString\<close> of its own, which the template literal cannot convert.
\<close>

theorem worker_entry_point_throws_witness:
  "validatePayload (example_ballot ''v1'' ''CA'' True False) = []
   \<and> handleSubmit ''2026-01-05T12:00:01.000Z'' empty_db (Some (example_ballot ''v1'' ''CA'' True False)) =
       (Inl ExecError, empty_db)
   \<and> validatePayload (JObj [(''schema_version'', JStr ''1''), (''created_utc'', JStr ''t''),
        (''voter_id'', JObj [(''toString'', JStr ''x'')]),
        (''context'', JObj [(''region'', JStr ''CA''), (''country_or_territory'', JStr ''US'')])]) = []
   \<and> handleSubmit ''2026-01-05T12:00:02.000Z'' empty_db
        (Some (JObj [(''schema_version'', JStr ''1''), (''created_utc'', JStr ''t''),
           (''voter_id'', JObj [(''toString'', JStr ''x'')]),
           (''context'', JObj [(''region'', JStr ''CA''), (''country_or_territory'', JStr ''US'')])])) =
       (Inl TypeError, empty_db)
   \<and> handleResults ''2026-01-05T13:00:00.000Z'' empty_db = Inl ExecError"
proof -
  let ?p = "example_ballot ''v1'' ''CA'' True False"
  let ?q = "JObj [(''schema_version'', JStr ''1''), (''created_utc'', JStr ''t''),
        (''voter_id'', JObj [(''toString'', JStr ''x'')]),
        (''context'', JObj [(''region'', JStr ''CA''), (''country_or_territory'', JStr ''US'')])]"
  have v: "validatePayload ?p = []"
    by (simp add: ballot_valid)
  have k: "dedupeKey ?p = Inr (sha256 (''v1'' @ ''|1|2026-01-03_to_2026-02-02''))"
    by (rule ballot_key)
  have "handleSubmit ''2026-01-05T12:00:01.000Z'' empty_db (Some ?p) \<noteq> (Inl TypeError, empty_db)"
    by (simp add: handleSubmit_def v k ensureSchema_throws)
  with worker_entry_point_throws[of ?p "''2026-01-05T12:00:01.000Z''" empty_db] v
  have first: "handleSubmit ''2026-01-05T12:00:01.000Z'' empty_db (Some ?p) = (Inl ExecError, empty_db)"
    by blast
  have w: "validatePayload ?q = []"
    by (simp add: validatePayload_def)
  have "dedupeKey ?q = Inl TypeError"
    by (simp add: dedupeKey_def)
  with w have "handleSubmit ''2026-01-05T12:00:02.000Z'' empty_db (Some ?q) \<noteq> (Inl ExecError, empty_db)"
    by (simp add: handleSubmit_def)
  with worker_entry_point_throws[of ?q "''2026-01-05T12:00:02.000Z''" empty_db] w
  have second: "handleSubmit ''2026-01-05T12:00:02.000Z'' empty_db (Some ?q) = (Inl TypeError, empty_db)"
    by blast
  from worker_entry_point_throws[of _ "''2026-01-05T13:00:00.000Z''" empty_db]
  have third: "handleResults ''2026-01-05T13:00:00.000Z'' empty_db = Inl ExecError"
    by blast
  from v first w second third show ?thesis
    by blast
qed

end
